theory Spec2Isabelle
  imports Main
begin

section \<open>JavaScript values\<close>

text \<open>
  The store keeps its mirror in an ordinary JavaScript object and looks paths up in an
  ordinary object used as instance table, so own properties, the prototype chain and the
  inherited \<open>__proto__\<close> accessor are all visible through \<open>get\<close>, \<open>set\<close> and \<open>has\<close>.
  Values are trees: numbers are the integers (where doubles are exact), strings are lists of
  8-bit characters, objects carry their prototype and their own properties in the order
  \<open>Object.keys\<close> and \<open>JSON.stringify\<close> enumerate them.  Built-in objects and functions are
  named, not interpreted.
\<close>

datatype jsval =
    JUndefined
  | JNull
  | JBool bool
  | JNum int
  | JStr string
  | JArr "jsval list"
  | JObj jsval "(string \<times> jsval) list"
  | JBuiltinObj string
  | JFun string

text \<open>
  What a call throws. The code itself throws \<open>new Error(message)\<close> only, for a bad path,
  bad snapshot options and a file that does not hold an object; the runtime throws the
  rest. \<open>Unmodelled\<close> is no JavaScript error: it marks a case that these definitions leave
  out.
\<close>

datatype error =
    Error string
  | TypeError string
  | SyntaxError
  | SystemError string
  | Unmodelled

definition ObjectPrototype :: jsval where
  "ObjectPrototype = JBuiltinObj ''Object.prototype''"

definition ArrayPrototype :: jsval where
  "ArrayPrototype = JBuiltinObj ''Array.prototype''"

text \<open>The object literal \<open>{}\<close>.\<close>

definition empty_object :: jsval where
  "empty_object = JObj ObjectPrototype []"

fun typeof :: "jsval \<Rightarrow> string" where
  "typeof JUndefined = ''undefined''"
| "typeof JNull = ''object''"
| "typeof (JBool b) = ''boolean''"
| "typeof (JNum n) = ''number''"
| "typeof (JStr s) = ''string''"
| "typeof (JArr xs) = ''object''"
| "typeof (JObj p ps) = ''object''"
| "typeof (JBuiltinObj n) = ''object''"
| "typeof (JFun n) = ''function''"

text \<open>ToBoolean, as used by \<open>if\<close>, \<open>&&\<close>, \<open>||\<close> and \<open>!\<close>.\<close>

fun truthy :: "jsval \<Rightarrow> bool" where
  "truthy JUndefined = False"
| "truthy JNull = False"
| "truthy (JBool b) = b"
| "truthy (JNum n) = (n \<noteq> 0)"
| "truthy (JStr s) = (s \<noteq> [])"
| "truthy (JArr xs) = True"
| "truthy (JObj p ps) = True"
| "truthy (JBuiltinObj n) = True"
| "truthy (JFun n) = True"

text \<open>What the \<open>__proto__\<close> setter accepts as a prototype: an object or null.\<close>

fun is_object_or_null :: "jsval \<Rightarrow> bool" where
  "is_object_or_null JNull = True"
| "is_object_or_null (JArr xs) = True"
| "is_object_or_null (JObj p ps) = True"
| "is_object_or_null (JBuiltinObj n) = True"
| "is_object_or_null (JFun n) = True"
| "is_object_or_null v = False"

subsection \<open>Property keys and their order\<close>

definition is_digit :: "char \<Rightarrow> bool" where
  "is_digit c = (c \<in> set ''0123456789'')"

definition digit_val :: "char \<Rightarrow> nat" where
  "digit_val c = of_char c - 48"

definition nat_of_digits :: "string \<Rightarrow> nat" where
  "nat_of_digits s = foldl (\<lambda>a c. 10 * a + digit_val c) 0 s"

text \<open>
  An array index is a canonical decimal numeral below \<open>2^32 - 1\<close>. Own keys that are array
  indices are enumerated first, in ascending numeric order; the other keys follow in the order
  of their creation.
\<close>

definition is_array_index :: "string \<Rightarrow> bool" where
  "is_array_index k =
     (list_all is_digit k \<and> (k = ''0'' \<or> (case k of [] \<Rightarrow> False | c # cs \<Rightarrow> c \<in> set ''123456789''))
      \<and> length k \<le> 10 \<and> nat_of_digits k < 4294967295)"

fun insert_index :: "string \<Rightarrow> 'a \<Rightarrow> (string \<times> 'a) list \<Rightarrow> (string \<times> 'a) list" where
  "insert_index k v [] = [(k, v)]"
| "insert_index k v ((k', v') # ps) =
     (if is_array_index k' \<and> nat_of_digits k' < nat_of_digits k
      then (k', v') # insert_index k v ps
      else (k, v) # (k', v') # ps)"

text \<open>Creating an own property that is not there yet.\<close>

definition add_prop :: "string \<Rightarrow> 'a \<Rightarrow> (string \<times> 'a) list \<Rightarrow> (string \<times> 'a) list" where
  "add_prop k v ps = (if is_array_index k then insert_index k v ps else ps @ [(k, v)])"

text \<open>Overwriting an own property keeps its place.\<close>

fun replace_prop :: "string \<Rightarrow> 'a \<Rightarrow> (string \<times> 'a) list \<Rightarrow> (string \<times> 'a) list" where
  "replace_prop k v [] = []"
| "replace_prop k v ((k', v') # ps) =
     (if k' = k then (k', v) # ps else (k', v') # replace_prop k v ps)"

text \<open>CreateDataProperty: define or overwrite an own property, whatever is inherited.\<close>

definition define_prop :: "string \<Rightarrow> 'a \<Rightarrow> (string \<times> 'a) list \<Rightarrow> (string \<times> 'a) list" where
  "define_prop k v ps =
     (case map_of ps k of Some old \<Rightarrow> replace_prop k v ps | None \<Rightarrow> add_prop k v ps)"

definition remove_prop :: "string \<Rightarrow> (string \<times> 'a) list \<Rightarrow> (string \<times> 'a) list" where
  "remove_prop k ps = filter (\<lambda>kv. fst kv \<noteq> k) ps"

subsection \<open>Property lookup along the prototype chain\<close>

datatype prop_slot = DataProp jsval | ProtoAccessor | NoProp | UnmodelledProp

text \<open>
  The own properties of \<open>Object.prototype\<close>: eleven methods (all writable data properties)
  and the accessor \<open>__proto__\<close>.
\<close>

definition object_prototype_methods :: "string list" where
  "object_prototype_methods =
     [''constructor'', ''__defineGetter__'', ''__defineSetter__'', ''hasOwnProperty'',
      ''__lookupGetter__'', ''__lookupSetter__'', ''isPrototypeOf'', ''propertyIsEnumerable'',
      ''toString'', ''valueOf'', ''toLocaleString'']"

definition object_prototype_slot :: "string \<Rightarrow> prop_slot" where
  "object_prototype_slot k =
     (if k = ''__proto__'' then ProtoAccessor
      else if k = ''constructor'' then DataProp (JFun ''Object'')
      else if k \<in> set object_prototype_methods then DataProp (JFun (''Object.prototype.'' @ k))
      else NoProp)"

text \<open>
  \<open>find_prop v k\<close> searches \<open>v\<close> and then its prototypes for \<open>k\<close>. The methods of
  \<open>Array.prototype\<close>, and every property of a function or of a boxed primitive, depend on
  the version of the runtime and are left out: the answer there is \<open>UnmodelledProp\<close>.
\<close>

fun find_prop :: "jsval \<Rightarrow> string \<Rightarrow> prop_slot" where
  "find_prop (JObj p ps) k =
     (case map_of ps k of Some x \<Rightarrow> DataProp x | None \<Rightarrow> find_prop p k)"
| "find_prop (JArr xs) k =
     (if is_array_index k \<and> nat_of_digits k < length xs then DataProp (xs ! nat_of_digits k)
      else if k = ''length'' then DataProp (JNum (int (length xs)))
      else if k = ''__proto__'' then ProtoAccessor
      else UnmodelledProp)"
| "find_prop (JBuiltinObj n) k =
     (if n = ''Object.prototype'' then object_prototype_slot k
      else if n = ''Array.prototype'' \<and> k = ''__proto__'' then ProtoAccessor
      else UnmodelledProp)"
| "find_prop JNull k = NoProp"
| "find_prop v k = UnmodelledProp"

fun proto_of :: "jsval \<Rightarrow> jsval" where
  "proto_of (JObj p ps) = p"
| "proto_of (JArr xs) = ArrayPrototype"
| "proto_of (JBuiltinObj n) = (if n = ''Array.prototype'' then ObjectPrototype else JNull)"
| "proto_of v = JUndefined"

text \<open>The expression \<open>v[k]\<close>.\<close>

definition get_prop :: "jsval \<Rightarrow> string \<Rightarrow> error + jsval" where
  "get_prop v k =
     (if v = JUndefined \<or> v = JNull then Inl (TypeError ''Cannot read properties of undefined or null'')
      else case find_prop v k of
             DataProp x \<Rightarrow> Inr x
           | ProtoAccessor \<Rightarrow> Inr (proto_of v)
           | NoProp \<Rightarrow> Inr JUndefined
           | UnmodelledProp \<Rightarrow> Inl Unmodelled)"

text \<open>
  The statement \<open>v[k] = x\<close>, returning the object as it is afterwards. An own
  property is overwritten. Otherwise the prototypes decide: a data property found there (all
  the modelled ones are writable) or no property at all makes a new own property; the
  \<open>__proto__\<close> accessor runs its setter instead, which replaces the prototype when \<open>x\<close> is an
  object or null and does nothing for any other \<open>x\<close>. Stores into an array (holes, the
  \<open>length\<close> property) are left out.
\<close>

fun set_prop :: "jsval \<Rightarrow> string \<Rightarrow> jsval \<Rightarrow> error + jsval" where
  "set_prop JUndefined k x = Inl (TypeError ''Cannot set properties of undefined or null'')"
| "set_prop JNull k x = Inl (TypeError ''Cannot set properties of undefined or null'')"
| "set_prop (JObj p ps) k x =
     (case map_of ps k of
        Some old \<Rightarrow> Inr (JObj p (replace_prop k x ps))
      | None \<Rightarrow>
         (case find_prop p k of
            DataProp y \<Rightarrow> Inr (JObj p (add_prop k x ps))
          | NoProp \<Rightarrow> Inr (JObj p (add_prop k x ps))
          | ProtoAccessor \<Rightarrow> Inr (if is_object_or_null x then JObj x ps else JObj p ps)
          | UnmodelledProp \<Rightarrow> Inl Unmodelled))"
| "set_prop v k x = Inl Unmodelled"

text \<open>The statement \<open>delete v[k]\<close>; deleting from an array is left out.\<close>

fun delete_prop :: "jsval \<Rightarrow> string \<Rightarrow> error + jsval" where
  "delete_prop JUndefined k = Inl (TypeError ''Cannot convert undefined or null to object'')"
| "delete_prop JNull k = Inl (TypeError ''Cannot convert undefined or null to object'')"
| "delete_prop (JObj p ps) k = Inr (JObj p (remove_prop k ps))"
| "delete_prop v k = Inl Unmodelled"

text \<open>\<open>Object.prototype.hasOwnProperty.call(v, k)\<close>.\<close>

fun has_own_property :: "jsval \<Rightarrow> string \<Rightarrow> error + bool" where
  "has_own_property JUndefined k = Inl (TypeError ''Cannot convert undefined or null to object'')"
| "has_own_property JNull k = Inl (TypeError ''Cannot convert undefined or null to object'')"
| "has_own_property (JObj p ps) k = Inr (map_of ps k \<noteq> None)"
| "has_own_property (JArr xs) k =
     Inr ((is_array_index k \<and> nat_of_digits k < length xs) \<or> k = ''length'')"
| "has_own_property v k = Inl Unmodelled"

section \<open>JSON text\<close>

subsection \<open>\<open>JSON.stringify\<close>\<close>

definition digit_char :: "nat \<Rightarrow> char" where
  "digit_char d = ''0123456789'' ! (d mod 10)"

fun show_nat :: "nat \<Rightarrow> string" where
  "show_nat n = (if n < 10 then [digit_char n] else show_nat (n div 10) @ [digit_char n])"

declare show_nat.simps [simp del]

definition show_int :: "int \<Rightarrow> string" where
  "show_int i = (if i < 0 then CHR ''-'' # show_nat (nat (- i)) else show_nat (nat i))"

definition hex_char :: "nat \<Rightarrow> char" where
  "hex_char d = ''0123456789abcdef'' ! (d mod 16)"

text \<open>QuoteJSONString on one character.\<close>

definition quote_char :: "char \<Rightarrow> string" where
  "quote_char c =
     (if c = CHR 0x22 then [CHR 0x5C, CHR 0x22]
      else if c = CHR 0x5C then [CHR 0x5C, CHR 0x5C]
      else if c = CHR 0x08 then [CHR 0x5C, CHR ''b'']
      else if c = CHR 0x0C then [CHR 0x5C, CHR ''f'']
      else if c = CHR 0x0A then [CHR 0x5C, CHR ''n'']
      else if c = CHR 0x0D then [CHR 0x5C, CHR ''r'']
      else if c = CHR 0x09 then [CHR 0x5C, CHR ''t'']
      else if (of_char c :: nat) < 32
        then [CHR 0x5C, CHR ''u'', CHR ''0'', CHR ''0'',
              hex_char (of_char c div 16), hex_char (of_char c)]
      else [c])"

definition quote :: "string \<Rightarrow> string" where
  "quote s = CHR 0x22 # concat (map quote_char s) @ [CHR 0x22]"

fun join :: "string \<Rightarrow> string list \<Rightarrow> string" where
  "join sep [] = []"
| "join sep [x] = x"
| "join sep (x # y # ys) = x @ sep @ join sep (y # ys)"

text \<open>
  \<open>wrap l r gap ind parts\<close> lays out the members of an array or object: nothing between the
  brackets when there are no members, all on one line when the gap is empty, else one member
  a line, indented by \<open>ind\<close>, the closing bracket at the indentation \<open>stepback\<close> of the parent.
\<close>

definition wrap :: "string \<Rightarrow> string \<Rightarrow> nat \<Rightarrow> string \<Rightarrow> string \<Rightarrow> string list \<Rightarrow> string" where
  "wrap l r gap stepback ind parts =
     (if parts = [] then l @ r
      else if gap = 0 then l @ join '','' parts @ r
      else l @ [CHR 0x0A] @ ind @ join (CHR '','' # CHR 0x0A # ind) parts
             @ [CHR 0x0A] @ stepback @ r)"

text \<open>
  SerializeJSONProperty without a replacer: \<open>None\<close> is the result \<open>undefined\<close> (for
  \<open>undefined\<close> and for functions), which an array prints as \<open>null\<close> and an object leaves out
  with its key. Only own properties are written; the prototype is not.
\<close>

fun ser :: "nat \<Rightarrow> string \<Rightarrow> jsval \<Rightarrow> string option"
  and ser_elems :: "nat \<Rightarrow> string \<Rightarrow> jsval list \<Rightarrow> string list"
  and ser_props :: "nat \<Rightarrow> string \<Rightarrow> (string \<times> jsval) list \<Rightarrow> string list"
where
  "ser gap ind JUndefined = None"
| "ser gap ind (JFun n) = None"
| "ser gap ind JNull = Some ''null''"
| "ser gap ind (JBool b) = Some (if b then ''true'' else ''false'')"
| "ser gap ind (JNum n) = Some (show_int n)"
| "ser gap ind (JStr s) = Some (quote s)"
| "ser gap ind (JArr xs) =
     Some (wrap ''['' '']'' gap ind (ind @ replicate gap CHR '' '')
             (ser_elems gap (ind @ replicate gap CHR '' '') xs))"
| "ser gap ind (JObj p ps) =
     Some (wrap ''{'' ''}'' gap ind (ind @ replicate gap CHR '' '')
             (ser_props gap (ind @ replicate gap CHR '' '') ps))"
| "ser gap ind (JBuiltinObj n) = Some ''{}''"
| "ser_elems gap ind [] = []"
| "ser_elems gap ind (x # xs) =
     (case ser gap ind x of None \<Rightarrow> ''null'' | Some s \<Rightarrow> s) # ser_elems gap ind xs"
| "ser_props gap ind [] = []"
| "ser_props gap ind (kv # ps) =
     (case ser gap ind (snd kv) of
        None \<Rightarrow> ser_props gap ind ps
      | Some s \<Rightarrow>
          (quote (fst kv) @ '':'' @ (if gap = 0 then [] else '' '') @ s) # ser_props gap ind ps)"

text \<open>
  Before serialising an object, \<open>JSON.stringify\<close> calls its \<open>toJSON\<close> method if it finds a
  callable one. Functions are not interpreted here, so such a value is outside the model;
  neither \<open>Object.prototype\<close> nor \<open>Array.prototype\<close> has a \<open>toJSON\<close>.
\<close>

fun calls_toJSON :: "jsval \<Rightarrow> bool"
  and calls_toJSON_list :: "jsval list \<Rightarrow> bool"
  and calls_toJSON_props :: "(string \<times> jsval) list \<Rightarrow> bool"
where
  "calls_toJSON (JObj p ps) =
     ((case find_prop (JObj p ps) ''toJSON'' of
         DataProp f \<Rightarrow> typeof f = ''function''
       | UnmodelledProp \<Rightarrow> True
       | other \<Rightarrow> False)
      \<or> calls_toJSON_props ps)"
| "calls_toJSON (JArr xs) = calls_toJSON_list xs"
| "calls_toJSON v = False"
| "calls_toJSON_list [] = False"
| "calls_toJSON_list (x # xs) = (calls_toJSON x \<or> calls_toJSON_list xs)"
| "calls_toJSON_props [] = False"
| "calls_toJSON_props (kv # ps) = (calls_toJSON (snd kv) \<or> calls_toJSON_props ps)"

text \<open>
  A number is written in decimal digits below \<open>10^21\<close> and with an exponent from there on;
  \<open>show_int\<close> writes digits only, so a value holding such a number is outside the model.
\<close>

fun exponent_form :: "jsval \<Rightarrow> bool"
  and exponent_form_list :: "jsval list \<Rightarrow> bool"
  and exponent_form_props :: "(string \<times> jsval) list \<Rightarrow> bool"
where
  "exponent_form (JNum n) = (1000000000000000000000 \<le> \<bar>n\<bar>)"
| "exponent_form (JObj p ps) = exponent_form_props ps"
| "exponent_form (JArr xs) = exponent_form_list xs"
| "exponent_form v = False"
| "exponent_form_list [] = False"
| "exponent_form_list (x # xs) = (exponent_form x \<or> exponent_form_list xs)"
| "exponent_form_props [] = False"
| "exponent_form_props (kv # ps) = (exponent_form (snd kv) \<or> exponent_form_props ps)"

text \<open>
  \<open>JSON.stringify(v, null, space)\<close> for a numeric \<open>space\<close>: the gap is \<open>min 10 space\<close> blanks.
  The result is a string or \<open>undefined\<close>.
\<close>

definition JSON_stringify :: "jsval \<Rightarrow> nat \<Rightarrow> error + jsval" where
  "JSON_stringify v space =
     (if calls_toJSON v \<or> exponent_form v then Inl Unmodelled
      else case ser (min 10 space) [] v of None \<Rightarrow> Inr JUndefined | Some s \<Rightarrow> Inr (JStr s))"

subsection \<open>\<open>JSON.parse\<close>\<close>

definition is_ws :: "char \<Rightarrow> bool" where
  "is_ws c = (c = CHR '' '' \<or> c = CHR 0x09 \<or> c = CHR 0x0A \<or> c = CHR 0x0D)"

definition skip_ws :: "string \<Rightarrow> string" where
  "skip_ws cs = dropWhile is_ws cs"

definition hex_val :: "char \<Rightarrow> nat option" where
  "hex_val c =
     (if is_digit c then Some (of_char c - 48)
      else if c \<in> set ''abcdef'' then Some (of_char c - 87)
      else if c \<in> set ''ABCDEF'' then Some (of_char c - 55)
      else None)"

definition hex4 :: "string \<Rightarrow> nat option" where
  "hex4 cs =
     (case map hex_val (take 4 cs) of
        [Some a, Some b, Some c, Some d] \<Rightarrow> Some (((a * 16 + b) * 16 + c) * 16 + d)
      | other \<Rightarrow> None)"

definition simple_escape :: "char \<Rightarrow> char option" where
  "simple_escape e =
     (if e = CHR 0x22 then Some (CHR 0x22)
      else if e = CHR 0x5C then Some (CHR 0x5C)
      else if e = CHR ''/'' then Some (CHR ''/'')
      else if e = CHR ''b'' then Some (CHR 0x08)
      else if e = CHR ''f'' then Some (CHR 0x0C)
      else if e = CHR ''n'' then Some (CHR 0x0A)
      else if e = CHR ''r'' then Some (CHR 0x0D)
      else if e = CHR ''t'' then Some (CHR 0x09)
      else None)"

definition cons_char :: "char \<Rightarrow> error + string \<times> string \<Rightarrow> error + string \<times> string" where
  "cons_char c r = (case r of Inl e \<Rightarrow> Inl e | Inr (s, rest) \<Rightarrow> Inr (c # s, rest))"

text \<open>
  The characters of a string literal after its opening quote, and what follows the closing
  one. An escape \<open>\uXXXX\<close> above \<open>00ff\<close> names a character that the 8-bit strings here do not
  have.
\<close>

fun parse_string :: "string \<Rightarrow> error + string \<times> string" where
  "parse_string [] = Inl SyntaxError"
| "parse_string (c # cs) =
     (if c = CHR 0x22 then Inr ([], cs)
      else if c = CHR 0x5C then
        (case cs of
           [] \<Rightarrow> Inl SyntaxError
         | e # cs' \<Rightarrow>
             if e = CHR ''u'' then
               (case hex4 cs' of
                  None \<Rightarrow> Inl SyntaxError
                | Some n \<Rightarrow>
                    if n < 256 then cons_char (char_of n) (parse_string (drop 4 cs'))
                    else Inl Unmodelled)
             else
               (case simple_escape e of
                  None \<Rightarrow> Inl SyntaxError
                | Some x \<Rightarrow> cons_char x (parse_string cs')))
      else if (of_char c :: nat) < 32 then Inl SyntaxError
      else cons_char c (parse_string cs))"

text \<open>
  A number literal. Only integers that a double holds exactly are values of the model; a
  fraction, an exponent or a larger integer is outside it.
\<close>

definition parse_number :: "string \<Rightarrow> error + jsval \<times> string" where
  "parse_number cs =
     (let negative = (cs \<noteq> [] \<and> hd cs = CHR ''-'');
          body = (if negative then tl cs else cs);
          ds = takeWhile is_digit body;
          rest = dropWhile is_digit body
      in if ds = [] \<or> (hd ds = CHR ''0'' \<and> length ds > 1) then Inl SyntaxError
         else if rest \<noteq> [] \<and> hd rest \<in> set ''.eE'' then Inl Unmodelled
         else if nat_of_digits ds > 9007199254740992 then Inl Unmodelled
         else Inr (JNum (if negative then - int (nat_of_digits ds) else int (nat_of_digits ds)), rest))"

definition parse_literal :: "string \<Rightarrow> error + jsval \<times> string" where
  "parse_literal cs =
     (if take 4 cs = ''null'' then Inr (JNull, drop 4 cs)
      else if take 4 cs = ''true'' then Inr (JBool True, drop 4 cs)
      else if take 5 cs = ''false'' then Inr (JBool False, drop 5 cs)
      else Inl SyntaxError)"

text \<open>
  The recursive descent. The first argument bounds the number of nested calls; each call reads
  at least one character, so the length of the text is enough. Members are defined as own
  properties in the order read (a repeated key keeps its first place and its last value), on
  an object whose prototype is \<open>Object.prototype\<close>.
\<close>

fun parse_value :: "nat \<Rightarrow> string \<Rightarrow> error + jsval \<times> string"
  and parse_elements :: "nat \<Rightarrow> jsval list \<Rightarrow> string \<Rightarrow> error + jsval \<times> string"
  and parse_members :: "nat \<Rightarrow> (string \<times> jsval) list \<Rightarrow> string \<Rightarrow> error + jsval \<times> string"
where
  "parse_value 0 cs = Inl Unmodelled"
| "parse_value (Suc n) cs =
     (case skip_ws cs of
        [] \<Rightarrow> Inl SyntaxError
      | c # r \<Rightarrow>
          if c = CHR ''{'' then
            (if skip_ws r \<noteq> [] \<and> hd (skip_ws r) = CHR ''}''
             then Inr (JObj ObjectPrototype [], tl (skip_ws r))
             else parse_members n [] r)
          else if c = CHR ''['' then
            (if skip_ws r \<noteq> [] \<and> hd (skip_ws r) = CHR '']''
             then Inr (JArr [], tl (skip_ws r))
             else parse_elements n [] r)
          else if c = CHR 0x22 then
            (case parse_string r of Inl e \<Rightarrow> Inl e | Inr (s, r') \<Rightarrow> Inr (JStr s, r'))
          else if c = CHR ''-'' \<or> is_digit c then parse_number (c # r)
          else parse_literal (c # r))"
| "parse_elements 0 acc cs = Inl Unmodelled"
| "parse_elements (Suc n) acc cs =
     (case parse_value n cs of
        Inl e \<Rightarrow> Inl e
      | Inr (v, r) \<Rightarrow>
          (case skip_ws r of
             [] \<Rightarrow> Inl SyntaxError
           | c # r' \<Rightarrow>
               if c = CHR '','' then parse_elements n (acc @ [v]) r'
               else if c = CHR '']'' then Inr (JArr (acc @ [v]), r')
               else Inl SyntaxError))"
| "parse_members 0 acc cs = Inl Unmodelled"
| "parse_members (Suc n) acc cs =
     (case skip_ws cs of
        [] \<Rightarrow> Inl SyntaxError
      | q # r \<Rightarrow>
          if q \<noteq> CHR 0x22 then Inl SyntaxError
          else
            (case parse_string r of
               Inl e \<Rightarrow> Inl e
             | Inr (k, r1) \<Rightarrow>
                 (case skip_ws r1 of
                    [] \<Rightarrow> Inl SyntaxError
                  | c # r2 \<Rightarrow>
                      if c \<noteq> CHR '':'' then Inl SyntaxError
                      else
                        (case parse_value n r2 of
                           Inl e \<Rightarrow> Inl e
                         | Inr (v, r3) \<Rightarrow>
                             (case skip_ws r3 of
                                [] \<Rightarrow> Inl SyntaxError
                              | d # r4 \<Rightarrow>
                                  if d = CHR '','' then parse_members n (define_prop k v acc) r4
                                  else if d = CHR ''}''
                                    then Inr (JObj ObjectPrototype (define_prop k v acc), r4)
                                  else Inl SyntaxError)))))"

text \<open>\<open>JSON.parse(text)\<close>: one value, with nothing but white space around it.\<close>

definition JSON_parse :: "string \<Rightarrow> error + jsval" where
  "JSON_parse text =
     (case parse_value (Suc (length text)) text of
        Inl e \<Rightarrow> Inl e
      | Inr (v, r) \<Rightarrow> if skip_ws r = [] then Inr v else Inl SyntaxError)"

section \<open>Paths and the file system\<close>

subsection \<open>The \<open>path\<close> module (POSIX)\<close>

fun split_on :: "char \<Rightarrow> string \<Rightarrow> string list" where
  "split_on c [] = [[]]"
| "split_on c (x # xs) =
     (if x = c then [] # split_on c xs
      else case split_on c xs of [] \<Rightarrow> [[x]] | y # ys \<Rightarrow> (x # y) # ys)"

definition strip_trailing_slashes :: "string \<Rightarrow> string" where
  "strip_trailing_slashes p = rev (dropWhile (\<lambda>c. c = CHR ''/'') (rev p))"

text \<open>\<open>path.basename(p)\<close>: the part after the last slash, trailing slashes not counted.\<close>

definition path_basename :: "string \<Rightarrow> string" where
  "path_basename p = rev (takeWhile (\<lambda>c. c \<noteq> CHR ''/'') (dropWhile (\<lambda>c. c = CHR ''/'') (rev p)))"

text \<open>
  \<open>path.dirname(p)\<close>: scanning from the end down to index 1, the first slash that follows a
  character other than a slash ends the directory part.
\<close>

definition path_dirname :: "string \<Rightarrow> string" where
  "path_dirname p =
     (if p = [] then ''.''
      else
        let hasRoot = (hd p = CHR ''/'');
            rest = dropWhile (\<lambda>c. c \<noteq> CHR ''/'') (dropWhile (\<lambda>c. c = CHR ''/'') (rev (tl p)))
        in if rest = [] then (if hasRoot then ''/'' else ''.'')
           else if hasRoot \<and> length rest = 1 then ''//''
           else take (length rest) p)"

text \<open>
  normalizeString: empty and \<open>.\<close> segments are dropped, \<open>..\<close> removes the segment before
  it, and is kept only where there is none to remove and the path is relative.
\<close>

fun norm_segs :: "bool \<Rightarrow> string list \<Rightarrow> string list \<Rightarrow> string list" where
  "norm_segs up acc [] = rev acc"
| "norm_segs up acc (s # ss) =
     (if s = [] \<or> s = ''.'' then norm_segs up acc ss
      else if s = ''..'' then
        (if acc = [] \<or> hd acc = ''..''
         then norm_segs up (if up then ''..'' # acc else acc) ss
         else norm_segs up (tl acc) ss)
      else norm_segs up (s # acc) ss)"

definition path_normalize :: "string \<Rightarrow> string" where
  "path_normalize p =
     (if p = [] then ''.''
      else
        let isAbsolute = (hd p = CHR ''/'');
            trailingSeparator = (last p = CHR ''/'');
            body = join ''/'' (norm_segs (\<not> isAbsolute) [] (split_on CHR ''/'' p))
        in if body = [] then (if isAbsolute then ''/'' else if trailingSeparator then ''./'' else ''.'')
           else (if isAbsolute then ''/'' else []) @ body @ (if trailingSeparator then ''/'' else []))"

text \<open>\<open>path.join(a, b)\<close>.\<close>

definition path_join :: "string \<Rightarrow> string \<Rightarrow> string" where
  "path_join a b =
     (if a = [] \<and> b = [] then ''.''
      else if a = [] then path_normalize b
      else if b = [] then path_normalize a
      else path_normalize (a @ ''/'' @ b))"

subsection \<open>The \<open>fs\<close> module\<close>

text \<open>
  The file system is a table from the normalised path of a node to a directory or to a file
  with its contents; the working directory is the node \<open>.\<close>. Permissions, links and devices
  are left out, so a call fails only where the shape of the tree makes it fail. \<open>writes\<close>
  counts the completed calls of \<open>writeFileSync\<close>. The flag \<open>coerces_data\<close> says which
  runtime is underneath: Node before version 14 turns any \<open>data\<close> into a string, later
  versions reject everything but strings and buffers before they open the file.
\<close>

datatype node = Dir | File string

record filesystem =
  nodes :: "string \<Rightarrow> node option"
  writes :: nat
  coerces_data :: bool

definition node_key :: "string \<Rightarrow> string" where
  "node_key p = (let n = path_normalize p in if n = ''/'' then n else strip_trailing_slashes n)"

definition parent_key :: "string \<Rightarrow> string" where
  "parent_key p = node_key (p @ ''/..'')"

definition names_directory :: "string \<Rightarrow> bool" where
  "names_directory p = (p \<noteq> [] \<and> last p = CHR ''/'')"

text \<open>The node a path resolves to; a path ending in a slash resolves to directories only.\<close>

definition resolve :: "filesystem \<Rightarrow> string \<Rightarrow> node option" where
  "resolve fs p =
     (if p = [] then None
      else case nodes fs (node_key p) of
             Some (File c) \<Rightarrow> if names_directory p then None else Some (File c)
           | other \<Rightarrow> other)"

definition fs_existsSync :: "filesystem \<Rightarrow> string \<Rightarrow> bool" where
  "fs_existsSync fs p = (resolve fs p \<noteq> None)"

text \<open>\<open>fs.mkdirSync(p)\<close>, not recursive.\<close>

definition fs_mkdirSync :: "filesystem \<Rightarrow> string \<Rightarrow> error + filesystem" where
  "fs_mkdirSync fs p =
     (if p = [] then Inl (SystemError ''ENOENT'')
      else if nodes fs (node_key p) \<noteq> None then Inl (SystemError ''EEXIST'')
      else case nodes fs (parent_key p) of
             None \<Rightarrow> Inl (SystemError ''ENOENT'')
           | Some (File c) \<Rightarrow> Inl (SystemError ''ENOTDIR'')
           | Some Dir \<Rightarrow> Inr (fs\<lparr>nodes := (nodes fs)(node_key p \<mapsto> Dir)\<rparr>))"

definition fs_readFileSync :: "filesystem \<Rightarrow> string \<Rightarrow> error + string" where
  "fs_readFileSync fs p =
     (if p = [] then Inl (SystemError ''ENOENT'')
      else case nodes fs (node_key p) of
             None \<Rightarrow> Inl (SystemError ''ENOENT'')
           | Some Dir \<Rightarrow> Inl (SystemError ''EISDIR'')
           | Some (File c) \<Rightarrow>
               if names_directory p then Inl (SystemError ''ENOTDIR'') else Inr c)"

text \<open>Opening \<open>p\<close> for writing and replacing its contents.\<close>

definition write_node :: "filesystem \<Rightarrow> string \<Rightarrow> string \<Rightarrow> error + filesystem" where
  "write_node fs p s =
     (if p = [] then Inl (SystemError ''ENOENT'')
      else case nodes fs (node_key p) of
             Some Dir \<Rightarrow> Inl (SystemError ''EISDIR'')
           | Some (File c) \<Rightarrow>
               if names_directory p then Inl (SystemError ''ENOTDIR'')
               else Inr (fs\<lparr>nodes := (nodes fs)(node_key p \<mapsto> File s), writes := Suc (writes fs)\<rparr>)
           | None \<Rightarrow>
               if names_directory p then Inl (SystemError ''EISDIR'')
               else case nodes fs (parent_key p) of
                      None \<Rightarrow> Inl (SystemError ''ENOENT'')
                    | Some (File c) \<Rightarrow> Inl (SystemError ''ENOTDIR'')
                    | Some Dir \<Rightarrow>
                        Inr (fs\<lparr>nodes := (nodes fs)(node_key p \<mapsto> File s),
                                 writes := Suc (writes fs)\<rparr>))"

text \<open>
  \<open>fs.writeFileSync(p, data)\<close>. \<open>data\<close> is a string, or \<open>undefined\<close> when the caller passes
  none or passes the \<open>undefined\<close> that \<open>JSON.stringify\<close> returned.
\<close>

definition fs_writeFileSync :: "filesystem \<Rightarrow> string \<Rightarrow> jsval \<Rightarrow> error + filesystem" where
  "fs_writeFileSync fs p data =
     (case data of
        JStr s \<Rightarrow> write_node fs p s
      | JUndefined \<Rightarrow>
          if coerces_data fs then write_node fs p ''undefined''
          else Inl (TypeError ''ERR_INVALID_ARG_TYPE'')
      | other \<Rightarrow> Inl Unmodelled)"

section \<open>The store\<close>

text \<open>
  A \<open>Database\<close> object has the fields \<open>jsonFilePath\<close>, \<open>options\<close> and \<open>data\<close> (the mirror);
  a field not assigned yet reads \<open>undefined\<close>. Objects live in a heap and are named by their
  index, so that two references to one store are one index. The module-level table
  \<open>instances\<close> is an ordinary object whose own properties map paths to stores. A timer started
  with \<open>setInterval\<close> is recorded with the store, the snapshot folder and the interval it was
  given.
\<close>

record database =
  jsonFilePath :: string
  options :: jsval
  data :: jsval

datatype timer = Timer nat string jsval

record world =
  files :: filesystem
  instances :: "(string \<times> nat) list"
  heap :: "database list"
  timers :: "timer list"

text \<open>
  A method takes the world and returns it changed, with a value or with the error it threw;
  what it changed before throwing stays changed.
\<close>

type_synonym 'a action = "world \<Rightarrow> (error + 'a) \<times> world"

definition return :: "'a \<Rightarrow> 'a action" where
  "return x = (\<lambda>w. (Inr x, w))"

definition throw :: "error \<Rightarrow> 'a action" where
  "throw e = (\<lambda>w. (Inl e, w))"

definition bind :: "'a action \<Rightarrow> ('a \<Rightarrow> 'b action) \<Rightarrow> 'b action" where
  "bind m f = (\<lambda>w. case m w of (Inl e, w') \<Rightarrow> (Inl e, w') | (Inr x, w') \<Rightarrow> f x w')"

definition lift :: "error + 'a \<Rightarrow> 'a action" where
  "lift r = (\<lambda>w. (r, w))"

definition fs_do :: "(filesystem \<Rightarrow> error + filesystem) \<Rightarrow> unit action" where
  "fs_do f = (\<lambda>w. case f (files w) of
                     Inl e \<Rightarrow> (Inl e, w)
                   | Inr fs' \<Rightarrow> (Inr (), w\<lparr>files := fs'\<rparr>))"

definition fs_exists :: "string \<Rightarrow> bool action" where
  "fs_exists p = (\<lambda>w. (Inr (fs_existsSync (files w) p), w))"

text \<open>Reading and assigning the fields of \<open>this\<close>.\<close>

definition this :: "nat \<Rightarrow> database action" where
  "this r = (\<lambda>w. if r < length (heap w) then (Inr (heap w ! r), w) else (Inl Unmodelled, w))"

definition assign :: "nat \<Rightarrow> (database \<Rightarrow> database) \<Rightarrow> unit action" where
  "assign r f = (\<lambda>w. if r < length (heap w) then (Inr (), w\<lparr>heap := (heap w)[r := f (heap w ! r)]\<rparr>)
                      else (Inl Unmodelled, w))"

subsection \<open>Loading and saving\<close>

definition fetchDataFromFile :: "nat \<Rightarrow> unit action" where
  "fetchDataFromFile r =
     bind (this r) (\<lambda>db.
     bind (\<lambda>w. (fs_readFileSync (files w) (jsonFilePath db), w)) (\<lambda>text.
     bind (lift (JSON_parse text)) (\<lambda>savedData.
       if typeof savedData = ''object'' then assign r (\<lambda>d. d\<lparr>data := savedData\<rparr>)
       else throw (Error ''Data is not a valid object''))))"

definition saveDataToFile :: "nat \<Rightarrow> unit action" where
  "saveDataToFile r =
     bind (this r) (\<lambda>db.
     bind (lift (JSON_stringify (data db) 2)) (\<lambda>text.
       fs_do (\<lambda>fs. fs_writeFileSync fs (jsonFilePath db) text)))"

text \<open>\<open>now\<close> is the value of \<open>Date.now()\<close>; \<open>writeFileSync\<close> is called without data.\<close>

definition makeSnapshot :: "nat \<Rightarrow> string \<Rightarrow> nat \<Rightarrow> unit action" where
  "makeSnapshot r folderPath now =
     bind (fs_exists folderPath) (\<lambda>there.
     bind (if \<not> there then fs_do (\<lambda>fs. fs_mkdirSync fs folderPath) else return ()) (\<lambda>u.
     bind (this r) (\<lambda>db.
       let splitName = butlast (split_on CHR ''.'' (path_basename (jsonFilePath db)));
           databaseName = join ''.'' splitName;
           fileName = ''snapshot-'' @ databaseName @ ''-'' @ show_nat now @ ''.json''
       in fs_do (\<lambda>fs. fs_writeFileSync fs (path_join folderPath fileName) JUndefined))))"

subsection \<open>Construction\<close>

text \<open>
  What \<open>new Database(...)\<close> evaluates to: a store, or whatever object the expression
  \<open>instances[filePath]\<close> found on \<open>Object.prototype\<close>.
\<close>

datatype constructed = Instance nat | Inherited jsval

definition instances_get :: "(string \<times> nat) list \<Rightarrow> string \<Rightarrow> constructed option" where
  "instances_get table k =
     (case map_of table k of
        Some r \<Rightarrow> Some (Instance r)
      | None \<Rightarrow>
         (case object_prototype_slot k of
            DataProp f \<Rightarrow> Some (Inherited f)
          | ProtoAccessor \<Rightarrow> Some (Inherited ObjectPrototype)
          | other \<Rightarrow> None))"

fun string_of :: "jsval \<Rightarrow> string" where
  "string_of (JStr s) = s"
| "string_of v = []"

text \<open>The block guarded by \<open>this.options.snapshots && this.options.snapshots.enabled\<close>.\<close>

definition start_snapshots :: "nat \<Rightarrow> unit action" where
  "start_snapshots r =
     bind (this r) (\<lambda>db.
     bind (lift (get_prop (options db) ''snapshots'')) (\<lambda>snapshots.
       if \<not> truthy snapshots then return ()
       else
         bind (lift (get_prop snapshots ''enabled'')) (\<lambda>enabled.
           if \<not> truthy enabled then return ()
           else
             bind (lift (get_prop snapshots ''path'')) (\<lambda>path.
               if \<not> (truthy path \<and> typeof path = ''string'')
               then throw (Error ''Provide a valid file path for database snapshots'')
               else
                 bind (lift (get_prop snapshots ''interval'')) (\<lambda>interval.
                   if typeof interval \<noteq> ''number''
                   then throw (Error ''Provide the interval in milliseconds for snapshot creation'')
                   else
                     bind (fs_exists (string_of path)) (\<lambda>there.
                     bind (if \<not> there then fs_do (\<lambda>fs. fs_mkdirSync fs (string_of path))
                           else return ()) (\<lambda>u.
                       (\<lambda>w. (Inr (), w\<lparr>timers := timers w @ [Timer r (string_of path) interval]\<rparr>)))))))))"

text \<open>The last block of the constructor: create the file, or load it.\<close>

definition open_file :: "nat \<Rightarrow> unit action" where
  "open_file r =
     bind (this r) (\<lambda>db.
     bind (fs_exists (jsonFilePath db)) (\<lambda>there.
       if \<not> there then
         bind (fs_exists (path_dirname (jsonFilePath db))) (\<lambda>parent_there.
         bind (if \<not> parent_there then fs_do (\<lambda>fs. fs_mkdirSync fs (path_dirname (jsonFilePath db)))
               else return ()) (\<lambda>u.
           fs_do (\<lambda>fs. fs_writeFileSync fs (jsonFilePath db) (JStr ''{}''))))
       else fetchDataFromFile r))"

text \<open>
  The constructor. The new object is put into the heap where the constructor first needs it;
  the one that \<open>new\<close> made and an early return drops is never seen.
\<close>

definition Database :: "jsval \<Rightarrow> jsval \<Rightarrow> constructed action" where
  "Database filePath opts =
     (if \<not> (truthy filePath \<and> typeof filePath = ''string'')
      then throw (Error ''Provide a valid file path for the database'')
      else (\<lambda>w.
        case instances_get (instances w) (string_of filePath) of
          Some existing \<Rightarrow> (Inr existing, w)
        | None \<Rightarrow>
            (let r = length (heap w) in
             bind (\<lambda>w. (Inr (), w\<lparr>heap := heap w @ [\<lparr>jsonFilePath = string_of filePath,
                                                       options = JUndefined, data = JUndefined\<rparr>],
                                     instances := add_prop (string_of filePath) r (instances w)\<rparr>)) (\<lambda>u.
             bind (assign r (\<lambda>d. d\<lparr>options := (if truthy opts then opts else empty_object)\<rparr>)) (\<lambda>u.
             bind (start_snapshots r) (\<lambda>u.
             bind (assign r (\<lambda>d. d\<lparr>data := empty_object\<rparr>)) (\<lambda>u.
             bind (open_file r) (\<lambda>u.
               return (Instance r))))))) w))"

subsection \<open>Keys\<close>

text \<open>The method \<open>set\<close> is \<open>set_db\<close> here, apart from the \<open>set\<close> of a list.\<close>

definition get :: "nat \<Rightarrow> string \<Rightarrow> jsval action" where
  "get r key = bind (this r) (\<lambda>db. lift (get_prop (data db) key))"

definition setLocal :: "nat \<Rightarrow> string \<Rightarrow> jsval \<Rightarrow> unit action" where
  "setLocal r key val =
     bind (this r) (\<lambda>db.
     bind (lift (set_prop (data db) key val)) (\<lambda>obj.
       assign r (\<lambda>d. d\<lparr>data := obj\<rparr>)))"

definition set_db :: "nat \<Rightarrow> string \<Rightarrow> jsval \<Rightarrow> unit action" where
  "set_db r key val = bind (setLocal r key val) (\<lambda>u. saveDataToFile r)"

text \<open>
  The callback is any JavaScript function. It is handed the stored value itself, not a copy,
  and it can call the methods of the store, so before it returns a value or throws it may have
  changed the world: it is an action.
\<close>

definition update :: "nat \<Rightarrow> string \<Rightarrow> (jsval \<Rightarrow> jsval action) \<Rightarrow> unit action" where
  "update r key callback =
     bind (get r key) (\<lambda>val.
     bind (callback val) (\<lambda>newValue.
       set_db r key newValue))"

definition updateLocal :: "nat \<Rightarrow> string \<Rightarrow> (jsval \<Rightarrow> jsval action) \<Rightarrow> unit action" where
  "updateLocal r key callback =
     bind (get r key) (\<lambda>val.
     bind (callback val) (\<lambda>newValue.
       setLocal r key newValue))"

definition deleteLocal :: "nat \<Rightarrow> string \<Rightarrow> unit action" where
  "deleteLocal r key =
     bind (this r) (\<lambda>db.
     bind (lift (delete_prop (data db) key)) (\<lambda>obj.
       assign r (\<lambda>d. d\<lparr>data := obj\<rparr>)))"

definition delete :: "nat \<Rightarrow> string \<Rightarrow> unit action" where
  "delete r key = bind (deleteLocal r key) (\<lambda>u. saveDataToFile r)"

definition deleteAllLocal :: "nat \<Rightarrow> unit action" where
  "deleteAllLocal r = assign r (\<lambda>d. d\<lparr>data := empty_object\<rparr>)"

definition deleteAll :: "nat \<Rightarrow> unit action" where
  "deleteAll r = bind (deleteAllLocal r) (\<lambda>u. saveDataToFile r)"

definition has :: "nat \<Rightarrow> string \<Rightarrow> bool action" where
  "has r key = bind (this r) (\<lambda>db. lift (has_own_property (data db) key))"

subsection \<open>Bulk writes\<close>

text \<open>
  The two loops of the README: \<open>set\<close> for each pair, or \<open>setLocal\<close> for each pair and one
  \<open>saveDataToFile\<close> at the end. A call that throws ends the loop.
\<close>

fun setLocal_each :: "nat \<Rightarrow> (string \<times> jsval) list \<Rightarrow> unit action" where
  "setLocal_each r [] = return ()"
| "setLocal_each r (kv # kvs) = bind (setLocal r (fst kv) (snd kv)) (\<lambda>u. setLocal_each r kvs)"

fun set_each :: "nat \<Rightarrow> (string \<times> jsval) list \<Rightarrow> unit action" where
  "set_each r [] = return ()"
| "set_each r (kv # kvs) = bind (set_db r (fst kv) (snd kv)) (\<lambda>u. set_each r kvs)"

definition batch :: "nat \<Rightarrow> (string \<times> jsval) list \<Rightarrow> unit action" where
  "batch r kvs = bind (setLocal_each r kvs) (\<lambda>u. saveDataToFile r)"

text \<open>The file system after \<open>s\<close> has been written to \<open>p\<close>.\<close>

definition written :: "filesystem \<Rightarrow> string \<Rightarrow> string \<Rightarrow> filesystem" where
  "written fs p s = fs\<lparr>nodes := (nodes fs)(node_key p \<mapsto> File s), writes := Suc (writes fs)\<rparr>"

text \<open>The backing file of the store \<open>r\<close> holds the text of its mirror.\<close>

definition saved :: "nat \<Rightarrow> world \<Rightarrow> bool" where
  "saved r w =
     (case JSON_stringify (data (heap w ! r)) 2 of
        Inr (JStr s) \<Rightarrow> nodes (files w) (node_key (jsonFilePath (heap w ! r))) = Some (File s)
      | other \<Rightarrow> False)"

text \<open>Two objects with the same prototype and the same entries, in whatever order.\<close>

definition same_entries :: "jsval \<Rightarrow> jsval \<Rightarrow> bool" where
  "same_entries a b =
     (case (a, b) of
        (JObj p ps, JObj q qs) \<Rightarrow> p = q \<and> map_of ps = map_of qs
      | other \<Rightarrow> False)"

text \<open>
  What an assignment \<open>obj[k] = x\<close> does to the prototype and the entries of an object: the
  setter of \<open>__proto__\<close>, where the key reaches it, replaces the prototype; any other
  assignment makes or overwrites the entry.
\<close>

definition assigned :: "jsval \<times> (string \<rightharpoonup> jsval) \<Rightarrow> string \<times> jsval \<Rightarrow> jsval \<times> (string \<rightharpoonup> jsval)" where
  "assigned pm kv =
     (if snd pm (fst kv) = None \<and> find_prop (fst pm) (fst kv) = ProtoAccessor
      then (if is_object_or_null (snd kv) then snd kv else fst pm, snd pm)
      else (fst pm, (snd pm)(fst kv \<mapsto> snd kv)))"

text \<open>
  The prototype and the entries after a run of assignments to distinct keys, written without
  regard to their order.
\<close>

definition outcome :: "jsval \<times> (string \<rightharpoonup> jsval) \<Rightarrow> (string \<times> jsval) list \<Rightarrow> jsval \<times> (string \<rightharpoonup> jsval)" where
  "outcome pm kvs =
     (case map_of kvs ''__proto__'' of
        None \<Rightarrow> (fst pm, snd pm ++ map_of (rev kvs))
      | Some x \<Rightarrow>
          if snd pm ''__proto__'' = None \<and> find_prop (fst pm) ''__proto__'' = ProtoAccessor
          then (if is_object_or_null x then x else fst pm,
                snd pm ++ map_of (rev (filter (\<lambda>kv. fst kv \<noteq> ''__proto__'') kvs)))
          else (fst pm, snd pm ++ map_of (rev kvs)))"

subsection \<open>Sequences of calls\<close>

text \<open>
  Whatever a program does with stores is a sequence of constructor and method calls (a timer
  that fires is a call of \<open>makeSnapshot\<close>); \<open>run\<close> gives the world after such a sequence,
  the calls that throw included. The callbacks in a sequence compute a value or throw and do
  nothing else; what a callback does to a store is a call of the sequence in its own right.
\<close>

datatype call =
    New jsval jsval
  | Load nat
  | Save nat
  | Snapshot nat string nat
  | Get nat string
  | Set nat string jsval
  | SetLocal nat string jsval
  | Update nat string "jsval \<Rightarrow> error + jsval"
  | UpdateLocal nat string "jsval \<Rightarrow> error + jsval"
  | Delete nat string
  | DeleteLocal nat string
  | DeleteAll nat
  | DeleteAllLocal nat
  | Has nat string

fun perform :: "call \<Rightarrow> world \<Rightarrow> world" where
  "perform (New filePath opts) w = snd (Database filePath opts w)"
| "perform (Load r) w = snd (fetchDataFromFile r w)"
| "perform (Save r) w = snd (saveDataToFile r w)"
| "perform (Snapshot r folderPath now) w = snd (makeSnapshot r folderPath now w)"
| "perform (Get r k) w = snd (get r k w)"
| "perform (Set r k v) w = snd (set_db r k v w)"
| "perform (SetLocal r k v) w = snd (setLocal r k v w)"
| "perform (Update r k f) w = snd (update r k (\<lambda>v. lift (f v)) w)"
| "perform (UpdateLocal r k f) w = snd (updateLocal r k (\<lambda>v. lift (f v)) w)"
| "perform (Delete r k) w = snd (delete r k w)"
| "perform (DeleteLocal r k) w = snd (deleteLocal r k w)"
| "perform (DeleteAll r) w = snd (deleteAll r w)"
| "perform (DeleteAllLocal r) w = snd (deleteAllLocal r w)"
| "perform (Has r k) w = snd (has r k w)"

fun run :: "call list \<Rightarrow> world \<Rightarrow> world" where
  "run [] w = w"
| "run (c # cs) w = run cs (perform c w)"

text \<open>Every store in the table is in the heap.\<close>

definition registry_sound :: "world \<Rightarrow> bool" where
  "registry_sound w = list_all (\<lambda>e. snd e < length (heap w)) (instances w)"

text \<open>The table has \<open>r\<close> at \<open>p\<close>, and the store \<open>r\<close> has the options \<open>opts\<close>.\<close>

definition registered :: "string \<Rightarrow> nat \<Rightarrow> jsval \<Rightarrow> world \<Rightarrow> bool" where
  "registered p r opts w =
     (map_of (instances w) p = Some r \<and> r < length (heap w) \<and> options (heap w ! r) = opts)"

text \<open>The world in which the new object has its path, its place in the table and its options.\<close>

definition allocated :: "string \<Rightarrow> jsval \<Rightarrow> world \<Rightarrow> world" where
  "allocated p opts w =
     w\<lparr>instances := add_prop p (length (heap w)) (instances w),
       heap := heap w @ [\<lparr>jsonFilePath = p, options = (if truthy opts then opts else empty_object),
                          data = JUndefined\<rparr>]\<rparr>"

text \<open>An action keeps a property of the world when the property survives it.\<close>

definition keeps :: "(world \<Rightarrow> bool) \<Rightarrow> 'a action \<Rightarrow> bool" where
  "keeps I m = (\<forall>w. I w \<longrightarrow> I (snd (m w)))"

subsection \<open>A process at its start\<close>

text \<open>No store yet, and a disk with nothing but the working directory.\<close>

definition empty_disk :: "bool \<Rightarrow> filesystem" where
  "empty_disk legacy = \<lparr>nodes = [''.'' \<mapsto> Dir], writes = 0, coerces_data = legacy\<rparr>"

definition startup :: "filesystem \<Rightarrow> world" where
  "startup fs = \<lparr>files = fs, instances = [], heap = [], timers = []\<rparr>"

subsection \<open>Worlds used as examples\<close>

text \<open>
  The world after \<open>new Database("db.json")\<close> in a fresh process on an empty disk: the file
  has been created with the text \<open>{}\<close>, the store is registered and its mirror is empty.
\<close>

definition first_world :: "bool \<Rightarrow> world" where
  "first_world legacy =
     \<lparr>files = \<lparr>nodes = [''.'' \<mapsto> Dir, ''db.json'' \<mapsto> File ''{}''], writes = 1,
               coerces_data = legacy\<rparr>,
      instances = [(''db.json'', 0)],
      heap = [\<lparr>jsonFilePath = ''db.json'', options = empty_object, data = empty_object\<rparr>],
      timers = []\<rparr>"

text \<open>A disk on which \<open>db.json\<close> already holds the given text.\<close>

definition disk_with :: "string \<Rightarrow> filesystem" where
  "disk_with text =
     \<lparr>nodes = [''.'' \<mapsto> Dir, ''db.json'' \<mapsto> File text], writes = 0, coerces_data = False\<rparr>"

text \<open>The options \<open>{ snapshots: { enabled: true } }\<close>: snapshots wanted, no folder given.\<close>

definition snapshots_without_path :: jsval where
  "snapshots_without_path =
     JObj ObjectPrototype [(''snapshots'', JObj ObjectPrototype [(''enabled'', JBool True)])]"

text \<open>
  The world a constructor leaves when it throws on those options: the object is in the table,
  its mirror was never assigned, and no file was made.
\<close>

definition half_built_world :: world where
  "half_built_world =
     \<lparr>files = empty_disk False,
      instances = [(''db.json'', 0)],
      heap = [\<lparr>jsonFilePath = ''db.json'', options = snapshots_without_path, data = JUndefined\<rparr>],
      timers = []\<rparr>"

text \<open>The options \<open>{ forceNew: true }\<close>.\<close>

definition forceNew_options :: jsval where
  "forceNew_options = JObj ObjectPrototype [(''forceNew'', JBool True)]"

text \<open>The text \<open>JSON.stringify({a: 1}, null, 2)\<close> and the compact text of the same object.\<close>

definition indented_a1 :: string where
  "indented_a1 =
     [CHR ''{'', CHR 0x0A, CHR '' '', CHR '' '', CHR 0x22, CHR ''a'', CHR 0x22, CHR '':'', CHR '' '',
      CHR ''1'', CHR 0x0A, CHR ''}'']"

text \<open>The text \<open>JSON.stringify({a: 1, b: 2}, null, 2)\<close>.\<close>

definition indented_a1_b2 :: string where
  "indented_a1_b2 =
     [CHR ''{'', CHR 0x0A, CHR '' '', CHR '' '', CHR 0x22, CHR ''a'', CHR 0x22, CHR '':'', CHR '' '',
      CHR ''1'', CHR '','', CHR 0x0A, CHR '' '', CHR '' '', CHR 0x22, CHR ''b'', CHR 0x22, CHR '':'',
      CHR '' '', CHR ''2'', CHR 0x0A, CHR ''}'']"

definition compact_a1 :: string where
  "compact_a1 = [CHR ''{'', CHR 0x22, CHR ''a'', CHR 0x22, CHR '':'', CHR ''1'', CHR ''}'']"

text \<open>A store whose mirror \<open>{a: 1}\<close> is saved in its file.\<close>

definition count_world :: world where
  "count_world =
     \<lparr>files = disk_with indented_a1,
      instances = [(''db.json'', 0)],
      heap = [\<lparr>jsonFilePath = ''db.json'', options = empty_object,
               data = JObj ObjectPrototype [(''a'', JNum 1)]\<rparr>],
      timers = []\<rparr>"

text \<open>
  The callback \<open>v => { db.set("b", 2); throw new Error("no") }\<close>, for the store \<open>db\<close> at
  index 0.
\<close>

definition meddling_callback :: "jsval \<Rightarrow> jsval action" where
  "meddling_callback v = bind (set_db 0 ''b'' (JNum 2)) (\<lambda>u. throw (Error ''no''))"

text \<open>The world that callback leaves when it is run on \<open>count_world\<close>.\<close>

definition meddled_world :: world where
  "meddled_world =
     \<lparr>files = \<lparr>nodes = [''.'' \<mapsto> Dir, ''db.json'' \<mapsto> File indented_a1_b2], writes = 1,
               coerces_data = False\<rparr>,
      instances = [(''db.json'', 0)],
      heap = [\<lparr>jsonFilePath = ''db.json'', options = empty_object,
               data = JObj ObjectPrototype [(''a'', JNum 1), (''b'', JNum 2)]\<rparr>],
      timers = []\<rparr>"

text \<open>
  The world after \<open>set("__proto__", null)\<close> on \<open>first_world\<close>: the mirror has no prototype and
  no entry, and has been saved again as \<open>{}\<close>.
\<close>

definition proto_lost_world :: world where
  "proto_lost_world =
     \<lparr>files = \<lparr>nodes = [''.'' \<mapsto> Dir, ''db.json'' \<mapsto> File ''{}''], writes = 2,
               coerces_data = False\<rparr>,
      instances = [(''db.json'', 0)],
      heap = [\<lparr>jsonFilePath = ''db.json'', options = empty_object, data = JObj JNull []\<rparr>],
      timers = []\<rparr>"

text \<open>The text \<open>{"__proto__":null}\<close>.\<close>

definition proto_text :: string where
  "proto_text = [CHR ''{'', CHR 0x22] @ ''__proto__'' @ [CHR 0x22] @ '':null}''"

text \<open>A callback without effects that throws on the value 1.\<close>

definition refuse_one :: "jsval \<Rightarrow> error + jsval" where
  "refuse_one v = (if v = JNum 1 then Inl (Error ''no'') else Inr v)"

text \<open>The world after \<open>new Database("db.json")\<close> on a disk whose \<open>db.json\<close> holds \<open>{"a":1}\<close>.\<close>

definition compact_world :: world where
  "compact_world =
     \<lparr>files = disk_with compact_a1,
      instances = [(''db.json'', 0)],
      heap = [\<lparr>jsonFilePath = ''db.json'', options = empty_object,
               data = JObj ObjectPrototype [(''a'', JNum 1)]\<rparr>],
      timers = []\<rparr>"

definition a_then_b :: "(string \<times> jsval) list" where
  "a_then_b = [(''a'', JNum 1), (''b'', JNum 2)]"

definition b_then_a :: "(string \<times> jsval) list" where
  "b_then_a = [(''b'', JNum 2), (''a'', JNum 1)]"

text \<open>The options \<open>{ indented: true }\<close>, and some calls.\<close>

definition indented_options :: jsval where
  "indented_options = JObj ObjectPrototype [(''indented'', JBool True)]"

definition some_calls :: "call list" where
  "some_calls = [Set 0 ''a'' (JNum 1), New (JStr ''other.json'') JUndefined, DeleteAllLocal 0]"

text \<open>
  The world after \<open>new Database("db.json")\<close> and then \<open>new Database("./db.json")\<close>: one
  file, two stores.
\<close>

definition two_stores_world :: world where
  "two_stores_world =
     \<lparr>files = \<lparr>nodes = [''.'' \<mapsto> Dir, ''db.json'' \<mapsto> File ''{}''], writes = 1,
               coerces_data = False\<rparr>,
      instances = [(''db.json'', 0), (''./db.json'', 1)],
      heap = [\<lparr>jsonFilePath = ''db.json'', options = empty_object, data = empty_object\<rparr>,
              \<lparr>jsonFilePath = ''./db.json'', options = empty_object, data = empty_object\<rparr>],
      timers = []\<rparr>"

text \<open>The callback \<open>v => { db.set("b", 2); return v }\<close>, for the store at index 0.\<close>

definition writing_callback :: "jsval \<Rightarrow> jsval action" where
  "writing_callback v = bind (set_db 0 ''b'' (JNum 2)) (\<lambda>u. return v)"

text \<open>
  The world after \<open>deleteLocal("a")\<close> on \<open>count_world\<close>: the mirror is empty, the file still
  holds \<open>{a: 1}\<close>.
\<close>

definition unsaved_world :: world where
  "unsaved_world =
     \<lparr>files = disk_with indented_a1,
      instances = [(''db.json'', 0)],
      heap = [\<lparr>jsonFilePath = ''db.json'', options = empty_object, data = empty_object\<rparr>],
      timers = []\<rparr>"

section \<open>Properties\<close>

lemmas action_defs = bind_def return_def throw_def lift_def fs_do_def fs_exists_def this_def assign_def

lemmas fs_defs = fs_existsSync_def resolve_def fs_writeFileSync_def write_node_def fs_mkdirSync_def
  fs_readFileSync_def

lemmas path_defs = path_basename_def path_dirname_def path_normalize_def path_join_def node_key_def
  parent_key_def strip_trailing_slashes_def names_directory_def

lemmas object_defs = get_prop_def empty_object_def ObjectPrototype_def ArrayPrototype_def
  object_prototype_slot_def object_prototype_methods_def add_prop_def define_prop_def remove_prop_def
  is_array_index_def is_digit_def nat_of_digits_def digit_val_def

lemma replicate_2: "replicate 2 c = [c, c]"
  by (simp add: numeral_2_eq_2)

lemmas stringify_defs = JSON_stringify_def wrap_def quote_def quote_char_def show_int_def
  show_nat.simps digit_char_def replicate_2

lemmas parse_defs = JSON_parse_def skip_ws_def is_ws_def parse_number_def parse_literal_def
  cons_char_def simple_escape_def hex4_def hex_val_def

lemmas store_defs = Database_def open_file_def start_snapshots_def instances_get_def
  fetchDataFromFile_def saveDataToFile_def makeSnapshot_def get_def set_db_def setLocal_def
  update_def updateLocal_def delete_def deleteLocal_def deleteAll_def deleteAllLocal_def has_def
  startup_def empty_disk_def

lemmas eval_defs = action_defs fs_defs path_defs object_defs stringify_defs parse_defs store_defs
  Let_def

lemmas example_defs = first_world_def disk_with_def snapshots_without_path_def half_built_world_def
  forceNew_options_def indented_a1_def compact_a1_def
  count_world_def refuse_one_def meddling_callback_def
  meddled_world_def proto_lost_world_def proto_text_def indented_a1_b2_def compact_world_def a_then_b_def b_then_a_def
  indented_options_def some_calls_def two_stores_world_def
  writing_callback_def unsaved_world_def

subsection \<open>The examples are what the constructor makes\<close>

lemma first_construction:
  "Database (JStr ''db.json'') JUndefined (startup (empty_disk legacy))
   = (Inr (Instance 0), first_world legacy)"
  by (simp add: eval_defs example_defs)

lemma compact_construction:
  "Database (JStr ''db.json'') JUndefined (startup (disk_with compact_a1))
   = (Inr (Instance 0), compact_world)"
  by (simp add: eval_defs example_defs)

lemma invalid_path_rejected:
  "\<not> (truthy filePath \<and> typeof filePath = ''string'') \<Longrightarrow>
   Database filePath opts w = (Inl (Error ''Provide a valid file path for the database''), w)"
  by (simp add: Database_def throw_def)

subsection \<open>Snapshots\<close>

text \<open>
  C1. A snapshot should be a new file \<open>snapshot-<name>-<millis>.json\<close> in the folder, holding
  the bytes of the backing file. The code calls \<open>writeFileSync\<close> without data and never reads
  the backing file. On \<open>first_world\<close>, whose backing file holds \<open>{}\<close>, a current runtime
  creates the folder and throws before any file is made; a runtime that coerces the missing
  data creates the file with the text \<open>undefined\<close>.
\<close>

theorem makeSnapshot_copies_nothing:
  "makeSnapshot 0 ''snapshots'' 1700000000000 (first_world False)
     = (Inl (TypeError ''ERR_INVALID_ARG_TYPE''),
        (first_world False)\<lparr>files :=
           \<lparr>nodes = [''.'' \<mapsto> Dir, ''db.json'' \<mapsto> File ''{}'', ''snapshots'' \<mapsto> Dir],
            writes = 1, coerces_data = False\<rparr>\<rparr>)
   \<and> makeSnapshot 0 ''snapshots'' 1700000000000 (first_world True)
     = (Inr (),
        (first_world True)\<lparr>files :=
           \<lparr>nodes = [''.'' \<mapsto> Dir, ''db.json'' \<mapsto> File ''{}'', ''snapshots'' \<mapsto> Dir,
                     ''snapshots/snapshot-db-1700000000000.json'' \<mapsto> File ''undefined''],
            writes = Suc (Suc 0), coerces_data = True\<rparr>\<rparr>)"
  by (simp add: eval_defs example_defs)

subsection \<open>Loading\<close>

text \<open>
  C2. Loading should fail unless the file decodes to a keyed mapping. The test in the code is
  \<open>typeof savedData === "object"\<close>, which is also true of arrays and of \<open>null\<close>: a file holding
  \<open>[1]\<close> or \<open>null\<close> is loaded and becomes the mirror. A number is rejected.
\<close>

theorem fetchDataFromFile_accepts_array_and_null:
  "Database (JStr ''db.json'') JUndefined (startup (disk_with ''[1]''))
     = (Inr (Instance 0),
        \<lparr>files = disk_with ''[1]'', instances = [(''db.json'', 0)],
         heap = [\<lparr>jsonFilePath = ''db.json'', options = empty_object, data = JArr [JNum 1]\<rparr>],
         timers = []\<rparr>)
   \<and> Database (JStr ''db.json'') JUndefined (startup (disk_with ''null''))
     = (Inr (Instance 0),
        \<lparr>files = disk_with ''null'', instances = [(''db.json'', 0)],
         heap = [\<lparr>jsonFilePath = ''db.json'', options = empty_object, data = JNull\<rparr>],
         timers = []\<rparr>)
   \<and> fst (Database (JStr ''db.json'') JUndefined (startup (disk_with ''5'')))
     = Inl (Error ''Data is not a valid object'')"
  by (simp add: eval_defs example_defs)

subsection \<open>Construction and the instance table\<close>

text \<open>
  C3. A construction that fails should leave no store behind. The constructor enters the new
  object in the table before it checks the snapshot options, so with \<open>{ snapshots: { enabled:
  true } }\<close> it throws and leaves \<open>half_built_world\<close>; the next construction for the path
  returns that object, whose mirror is \<open>undefined\<close>, and every read of a key throws.
\<close>

theorem failed_construction_stays_registered:
  "Database (JStr ''db.json'') snapshots_without_path (startup (empty_disk False))
     = (Inl (Error ''Provide a valid file path for database snapshots''), half_built_world)
   \<and> Database (JStr ''db.json'') JUndefined half_built_world = (Inr (Instance 0), half_built_world)
   \<and> get 0 ''k'' half_built_world
     = (Inl (TypeError ''Cannot read properties of undefined or null''), half_built_world)"
  by (simp add: eval_defs example_defs)

text \<open>
  C4. With \<open>forceNew\<close> a construction should make a store of its own. The constructor never
  reads the option: after the first construction, \<open>new Database("db.json", { forceNew: true })\<close>
  returns the registered store and changes nothing.
\<close>

theorem forceNew_is_ignored:
  "Database (JStr ''db.json'') JUndefined (startup (empty_disk False))
     = (Inr (Instance 0), first_world False)
   \<and> Database (JStr ''db.json'') forceNew_options (first_world False)
     = (Inr (Instance 0), first_world False)"
  by (simp add: eval_defs example_defs)

subsection \<open>Saving\<close>

lemma saveDataToFile_ignores_options:
  "r < length (heap w) \<Longrightarrow>
   files (snd (saveDataToFile r (w\<lparr>heap := (heap w)[r := (heap w ! r)\<lparr>options := opts\<rparr>]\<rparr>)))
   = files (snd (saveDataToFile r w))"
  by (simp add: saveDataToFile_def bind_def this_def lift_def fs_do_def split: sum.splits)

text \<open>
  C5. Without the \<open>indented\<close> option the file should be compact. \<open>saveDataToFile\<close> always
  passes the indent 2 to \<open>JSON.stringify\<close> and reads no option: the store of \<open>first_world\<close>
  has the options \<open>{}\<close>, and after \<open>set("a", 1)\<close> its file holds the indented text, not the
  compact one.
\<close>

theorem saveDataToFile_always_indents:
  "options (heap (first_world False) ! 0) = empty_object
   \<and> set_db 0 ''a'' (JNum 1) (first_world False)
     = (Inr (),
        \<lparr>files = \<lparr>nodes = [''.'' \<mapsto> Dir, ''db.json'' \<mapsto> File indented_a1], writes = 2,
                  coerces_data = False\<rparr>,
         instances = [(''db.json'', 0)],
         heap = [\<lparr>jsonFilePath = ''db.json'', options = empty_object,
                  data = JObj ObjectPrototype [(''a'', JNum 1)]\<rparr>],
         timers = []\<rparr>)
   \<and> JSON_stringify (JObj ObjectPrototype [(''a'', JNum 1)]) 0 = Inr (JStr compact_a1)
   \<and> indented_a1 \<noteq> compact_a1"
  by (simp add: eval_defs example_defs)

subsection \<open>Keys of the mirror\<close>

lemma get_keeps_world: "snd (get r k w) = w"
  by (simp add: get_def bind_def this_def lift_def split: sum.splits)

lemma has_keeps_world: "snd (has r k w) = w"
  by (simp add: has_def bind_def this_def lift_def split: sum.splits)

lemma map_of_replace_prop:
  "map_of ps k = Some old \<Longrightarrow> map_of (replace_prop k v ps) k = Some v"
  by (induction ps) (auto split: if_splits)

lemma map_of_insert_index: "map_of (insert_index k v ps) k = Some v"
  by (induction ps) auto

lemma map_of_add_prop: "map_of ps k = None \<Longrightarrow> map_of (add_prop k v ps) k = Some v"
  by (simp add: add_prop_def map_of_insert_index map_add_def)

lemma find_prop_accessor: "find_prop p k = ProtoAccessor \<Longrightarrow> k = ''__proto__''"
  by (induction p k rule: find_prop.induct)
     (auto simp: object_prototype_slot_def split: option.splits if_splits)

text \<open>Assigning to a key other than \<open>__proto__\<close> makes or overwrites an own property.\<close>

lemma set_prop_makes_own:
  assumes "k \<noteq> ''__proto__''" and "find_prop p k \<noteq> UnmodelledProp"
  shows "\<exists>ps'. set_prop (JObj p ps) k v = Inr (JObj p ps') \<and> map_of ps' k = Some v"
proof (cases "map_of ps k")
  case (Some old)
  then show ?thesis by (simp add: map_of_replace_prop)
next
  case None
  show ?thesis
  proof (cases "find_prop p k")
    case (DataProp y)
    with None show ?thesis by (simp add: map_of_add_prop)
  next
    case ProtoAccessor
    with assms(1) show ?thesis by (auto dest: find_prop_accessor)
  next
    case NoProp
    with None show ?thesis by (simp add: map_of_add_prop)
  next
    case UnmodelledProp
    with assms(2) show ?thesis by simp
  qed
qed

lemma saveDataToFile_heap: "heap (snd (saveDataToFile r w)) = heap w"
  by (simp add: saveDataToFile_def bind_def this_def lift_def fs_do_def split: sum.splits)

lemma has_on_object:
  "r < length (heap w) \<Longrightarrow> data (heap w ! r) = JObj p ps \<Longrightarrow>
   has r k w = (Inr (map_of ps k \<noteq> None), w)"
  by (simp add: has_def bind_def this_def lift_def)

lemma set_db_heap:
  assumes "r < length (heap w)" and "set_prop (data (heap w ! r)) k v = Inr obj"
  shows "heap (snd (set_db r k v w)) = (heap w)[r := (heap w ! r)\<lparr>data := obj\<rparr>]"
  using assms
  by (simp add: set_db_def setLocal_def bind_def this_def lift_def assign_def saveDataToFile_heap)

lemma deleteAll_heap:
  "r < length (heap w) \<Longrightarrow>
   heap (snd (deleteAll r w)) = (heap w)[r := (heap w ! r)\<lparr>data := empty_object\<rparr>]"
  by (simp add: deleteAll_def deleteAllLocal_def bind_def assign_def saveDataToFile_heap)

text \<open>
  What \<open>has\<close> answers on a mirror that is an object: true exactly for the own properties;
  true after \<open>set(k, v)\<close> for any \<open>v\<close> and any \<open>k\<close> other than \<open>__proto__\<close>, whether or not the
  file could be written; false for every key after \<open>deleteAll()\<close>.
\<close>

lemma has_is_own_entry:
  assumes "r < length (heap w)" and "data (heap w ! r) = JObj p ps"
  shows "has r k w = (Inr (k \<in> fst ` set ps), w)
       \<and> (k \<noteq> ''__proto__'' \<and> find_prop p k \<noteq> UnmodelledProp
            \<longrightarrow> fst (has r k (snd (set_db r k v w))) = Inr True)
       \<and> fst (has r k' (snd (deleteAll r w))) = Inr False"
proof (intro conjI impI)
  show "has r k w = (Inr (k \<in> fst ` set ps), w)"
    using assms by (simp add: has_on_object map_of_eq_None_iff)
next
  assume "k \<noteq> ''__proto__'' \<and> find_prop p k \<noteq> UnmodelledProp"
  then obtain ps' where s: "set_prop (JObj p ps) k v = Inr (JObj p ps')" and o: "map_of ps' k = Some v"
    using set_prop_makes_own [of k p ps v] by blast
  let ?w = "snd (set_db r k v w)"
  have h: "heap ?w = (heap w)[r := (heap w ! r)\<lparr>data := JObj p ps'\<rparr>]"
    using assms s by (simp add: set_db_heap)
  have "has r k ?w = (Inr (map_of ps' k \<noteq> None), ?w)"
    by (rule has_on_object) (use assms h in simp_all)
  with o show "fst (has r k ?w) = Inr True" by simp
next
  let ?w = "snd (deleteAll r w)"
  have h: "heap ?w = (heap w)[r := (heap w ! r)\<lparr>data := empty_object\<rparr>]"
    using assms by (simp add: deleteAll_heap)
  have "has r k' ?w = (Inr (map_of [] k' \<noteq> None), ?w)"
    using has_on_object [of r ?w ObjectPrototype "[]" k'] assms h by (simp add: empty_object_def)
  then show "fst (has r k' ?w) = Inr False" by simp
qed

lemma has_is_own_entry_example:
  "has 0 ''k'' (first_world False) = (Inr False, first_world False)
   \<and> fst (has 0 ''k'' (snd (set_db 0 ''k'' JNull (first_world False)))) = Inr True
   \<and> fst (has 0 ''k'' (snd (deleteAll 0 (snd (set_db 0 ''k'' JNull (first_world False)))))) = Inr False"
proof -
  have a: "0 < length (heap (first_world False))"
    and b: "data (heap (first_world False) ! 0) = JObj ObjectPrototype []"
    by (simp_all add: first_world_def empty_object_def)
  have c: "''k'' \<noteq> ''__proto__'' \<and> find_prop ObjectPrototype ''k'' \<noteq> UnmodelledProp"
    by (simp add: object_defs)
  let ?w = "snd (set_db 0 ''k'' JNull (first_world False))"
  have d: "0 < length (heap ?w)"
    and e: "data (heap ?w ! 0) = JObj ObjectPrototype [(''k'', JNull)]"
    by (simp_all add: eval_defs example_defs)
  from has_is_own_entry [OF a b, of "''k''" JNull] has_is_own_entry [OF d e, of "''k''" JNull "''k''"] c
  show ?thesis by simp
qed

text \<open>
  C8. After \<open>set(k, null)\<close> the key should be an entry of the mirror. \<open>set\<close> assigns with
  \<open>this.data[key] = value\<close>, and on the empty mirror of \<open>first_world\<close> the key \<open>__proto__\<close>
  finds the setter inherited from \<open>Object.prototype\<close>: \<open>set("__proto__", null)\<close> returns
  normally, has taken the prototype away from the mirror and has stored nothing, so
  \<open>has("__proto__")\<close> is false and \<open>get("__proto__")\<close> is \<open>undefined\<close>. The same key is stored as
  an entry when it is loaded from a file, and when it is set on the mirror that has lost its
  prototype.
\<close>

theorem set_proto_is_not_stored:
  "set_db 0 ''__proto__'' JNull (first_world False) = (Inr (), proto_lost_world)
   \<and> has 0 ''__proto__'' proto_lost_world = (Inr False, proto_lost_world)
   \<and> get 0 ''__proto__'' proto_lost_world = (Inr JUndefined, proto_lost_world)
   \<and> fst (has 0 ''__proto__''
          (snd (Database (JStr ''db.json'') JUndefined (startup (disk_with proto_text))))) = Inr True
   \<and> fst (has 0 ''__proto__'' (snd (set_db 0 ''__proto__'' JNull proto_lost_world))) = Inr True"
  by (simp add: eval_defs example_defs)

text \<open>
  C9. \<open>get\<close> and \<open>has\<close> disagree on inherited keys: on a mirror that is an ordinary object
  without an own \<open>toString\<close>, \<open>get("toString")\<close> returns the function inherited from
  \<open>Object.prototype\<close>, which is not \<open>undefined\<close>, and \<open>has("toString")\<close> returns false.
\<close>

theorem get_and_has_disagree:
  assumes "r < length (heap w)"
    and "data (heap w ! r) = JObj ObjectPrototype ps"
    and "map_of ps ''toString'' = None"
  shows "get r ''toString'' w = (Inr (JFun ''Object.prototype.toString''), w)
       \<and> JFun ''Object.prototype.toString'' \<noteq> JUndefined
       \<and> has r ''toString'' w = (Inr False, w)"
  using assms
  by (simp add: get_def has_def bind_def this_def lift_def get_prop_def ObjectPrototype_def
      object_prototype_slot_def object_prototype_methods_def)

theorem get_and_has_disagree_witness:
  "get 0 ''toString'' (first_world False)
     = (Inr (JFun ''Object.prototype.toString''), first_world False)
   \<and> has 0 ''toString'' (first_world False) = (Inr False, first_world False)"
  using get_and_has_disagree [of 0 "first_world False" "[]"]
  by (simp add: first_world_def empty_object_def)

text \<open>
  C10, as the code has it. If the callback throws on the current value of the key, \<open>update\<close>
  and \<open>updateLocal\<close> throw the same error and add nothing of their own: the world, mirror and
  files, is the one the callback left. For a callback that has changed nothing before it
  throws (\<open>w' = w\<close>), mirror and file are as they were.
\<close>

theorem throwing_callback_leaves_its_world:
  assumes "fst (get r k w) = Inr v" and "callback v w = (Inl e, w')"
  shows "update r k callback w = (Inl e, w') \<and> updateLocal r k callback w = (Inl e, w')"
proof -
  have "get r k w = (Inr v, w)"
    using assms(1) get_keeps_world [of r k w] by (cases "get r k w") simp
  with assms(2) show ?thesis
    by (simp add: update_def updateLocal_def bind_def)
qed

theorem throwing_callback_leaves_its_world_witness:
  "fst (get 0 ''a'' count_world) = Inr (JNum 1)
   \<and> lift (refuse_one (JNum 1)) count_world = (Inl (Error ''no''), count_world)
   \<and> update 0 ''a'' (\<lambda>v. lift (refuse_one v)) count_world = (Inl (Error ''no''), count_world)
   \<and> updateLocal 0 ''a'' (\<lambda>v. lift (refuse_one v)) count_world = (Inl (Error ''no''), count_world)"
proof -
  have g: "fst (get 0 ''a'' count_world) = Inr (JNum 1)"
    by (simp add: eval_defs count_world_def)
  have c: "lift (refuse_one (JNum 1)) count_world = (Inl (Error ''no''), count_world)"
    by (simp add: refuse_one_def lift_def)
  from throwing_callback_leaves_its_world
         [of 0 "''a''" count_world "JNum 1" "\<lambda>v. lift (refuse_one v)" "Error ''no''" count_world] g c
  show ?thesis by simp
qed

text \<open>
  C10, as the claim has it, fails for a callback with effects: on \<open>count_world\<close>, whose mirror
  and file hold \<open>{a: 1}\<close>, the callback \<open>v => { db.set("b", 2); throw new Error("no") }\<close>
  throws on the current value of \<open>a\<close>, and after \<open>update("a", fn)\<close> or \<open>updateLocal("a", fn)\<close>
  has thrown, mirror and file hold \<open>b\<close> as well.
\<close>

theorem callback_effects_stay:
  "fst (get 0 ''a'' count_world) = Inr (JNum 1)
   \<and> fst (meddling_callback (JNum 1) count_world) = Inl (Error ''no'')
   \<and> update 0 ''a'' meddling_callback count_world = (Inl (Error ''no''), meddled_world)
   \<and> updateLocal 0 ''a'' meddling_callback count_world = (Inl (Error ''no''), meddled_world)
   \<and> data (heap meddled_world ! 0) \<noteq> data (heap count_world ! 0)
   \<and> nodes (files meddled_world) ''db.json'' \<noteq> nodes (files count_world) ''db.json''"
  by (simp add: eval_defs example_defs)

subsection \<open>Deferred and immediate writes\<close>

lemma write_node_result:
  "write_node fs p s = Inr fs' \<Longrightarrow> fs' = written fs p s"
  by (auto simp: write_node_def written_def split: if_splits option.splits node.splits)

lemma write_node_again:
  "write_node fs p s1 = Inr fs1 \<Longrightarrow> write_node fs p s2 = Inr (written fs p s2)"
  by (auto simp: write_node_def written_def split: if_splits option.splits node.splits)

lemma write_node_after:
  "write_node fs p s1 = Inr fs1 \<Longrightarrow> write_node fs1 p s2 = Inr (written fs1 p s2)"
  by (auto simp: write_node_def written_def split: if_splits option.splits node.splits)

lemma written_twice:
  "(written (written fs p s1) p s2)\<lparr>writes := n\<rparr> = (written fs p s2)\<lparr>writes := n\<rparr>"
  by (simp add: written_def)

text \<open>The text that a successful \<open>writeFileSync\<close> put into the file.\<close>

lemma fs_writeFileSync_result:
  assumes "fs_writeFileSync fs p t = Inr fs'"
  shows "\<exists>s. fs' = written fs p s \<and> write_node fs p s = Inr fs'
             \<and> (\<forall>fs0. coerces_data fs0 = coerces_data fs \<longrightarrow> fs_writeFileSync fs0 p t = write_node fs0 p s)"
  using assms
  by (cases t) (auto simp: fs_writeFileSync_def split: if_splits dest: write_node_result)

lemma fs_writeFileSync_twice:
  assumes "fs_writeFileSync fs p t1 = Inr fs1" and "fs_writeFileSync fs1 p t2 = Inr fs2"
  shows "fs_writeFileSync fs p t2 = Inr (fs2\<lparr>writes := Suc (writes fs)\<rparr>)"
proof -
  from fs_writeFileSync_result [OF assms(1)] obtain s1 where
    1: "fs1 = written fs p s1" "write_node fs p s1 = Inr fs1" by blast
  from fs_writeFileSync_result [OF assms(2)] obtain s2 where
    2: "fs2 = written fs1 p s2"
    and c: "\<forall>fs0. coerces_data fs0 = coerces_data fs1 \<longrightarrow> fs_writeFileSync fs0 p t2 = write_node fs0 p s2"
    by blast
  have "coerces_data fs = coerces_data fs1" using 1 by (simp add: written_def)
  with c have "fs_writeFileSync fs p t2 = write_node fs p s2" by simp
  also have "\<dots> = Inr (written fs p s2)" using 1(2) by (rule write_node_again)
  also have "written fs p s2 = fs2\<lparr>writes := Suc (writes fs)\<rparr>"
    using 1(1) 2 by (simp add: written_def)
  finally show ?thesis .
qed

lemma fs_writeFileSync_writes:
  "fs_writeFileSync fs p t = Inr fs' \<Longrightarrow> writes fs' = Suc (writes fs)"
  by (auto dest!: fs_writeFileSync_result simp: written_def)


lemma setLocal_files:
  "setLocal r k v (w\<lparr>files := f\<rparr>)
   = (fst (setLocal r k v w), (snd (setLocal r k v w))\<lparr>files := f\<rparr>)"
  by (simp add: setLocal_def bind_def this_def lift_def assign_def split: sum.splits)

lemma setLocal_each_files:
  "setLocal_each r kvs (w\<lparr>files := f\<rparr>)
   = (fst (setLocal_each r kvs w), (snd (setLocal_each r kvs w))\<lparr>files := f\<rparr>)"
proof (induction kvs arbitrary: w)
  case Nil
  show ?case by (simp add: return_def)
next
  case (Cons kv kvs)
  show ?case
  proof (cases "setLocal r (fst kv) (snd kv) w")
    case (Pair res w')
    then show ?thesis
      using Cons.IH [of w'] by (cases res) (simp_all add: bind_def setLocal_files)
  qed
qed

lemma set_db_success:
  assumes "set_db r k v w = (Inr (), w')"
  shows "\<exists>wl t fs'. setLocal r k v w = (Inr (), wl) \<and> files wl = files w
           \<and> r < length (heap wl) \<and> r < length (heap w)
           \<and> jsonFilePath (heap wl ! r) = jsonFilePath (heap w ! r)
           \<and> JSON_stringify (data (heap wl ! r)) 2 = Inr t
           \<and> fs_writeFileSync (files w) (jsonFilePath (heap w ! r)) t = Inr fs'
           \<and> w' = wl\<lparr>files := fs'\<rparr>"
  using assms
  by (auto simp: set_db_def setLocal_def saveDataToFile_def bind_def this_def lift_def assign_def
      fs_do_def split: sum.splits if_splits)

lemma saveDataToFile_success:
  assumes "r < length (heap w)"
    and "JSON_stringify (data (heap w ! r)) 2 = Inr t"
    and "fs_writeFileSync (files w) (jsonFilePath (heap w ! r)) t = Inr fs'"
  shows "saveDataToFile r w = (Inr (), w\<lparr>files := fs'\<rparr>)"
  using assms by (simp add: saveDataToFile_def bind_def this_def lift_def fs_do_def)

lemma set_each_spec:
  "set_each r kvs w = (Inr (), w1) \<Longrightarrow>
   setLocal_each r kvs w = (Inr (), w1\<lparr>files := files w\<rparr>)
   \<and> jsonFilePath (heap w1 ! r) = jsonFilePath (heap w ! r)
   \<and> writes (files w1) = writes (files w) + length kvs
   \<and> (kvs \<noteq> [] \<longrightarrow>
        r < length (heap w1)
        \<and> (\<exists>t. JSON_stringify (data (heap w1 ! r)) 2 = Inr t
              \<and> fs_writeFileSync (files w) (jsonFilePath (heap w1 ! r)) t
                  = Inr ((files w1)\<lparr>writes := Suc (writes (files w))\<rparr>)))"
proof (induction kvs arbitrary: w)
  case Nil
  then show ?case by (simp add: return_def)
next
  case (Cons kv rest)
  from Cons.prems obtain wa where
    a: "set_db r (fst kv) (snd kv) w = (Inr (), wa)" and b: "set_each r rest wa = (Inr (), w1)"
    by (auto simp: bind_def split: prod.splits sum.splits)
  from set_db_success [OF a] obtain wl t fsa where
    l: "setLocal r (fst kv) (snd kv) w = (Inr (), wl)" and lf: "files wl = files w"
    and rl: "r < length (heap wl)"
    and pl: "jsonFilePath (heap wl ! r) = jsonFilePath (heap w ! r)"
    and st: "JSON_stringify (data (heap wl ! r)) 2 = Inr t"
    and wr: "fs_writeFileSync (files w) (jsonFilePath (heap w ! r)) t = Inr fsa"
    and wa: "wa = wl\<lparr>files := fsa\<rparr>"
    by blast
  note IH = Cons.IH [OF b]
  have wl_eq: "wl = wa\<lparr>files := files w\<rparr>" using wa lf by simp
  have path: "jsonFilePath (heap w1 ! r) = jsonFilePath (heap w ! r)"
    using IH pl wa by simp
  have local: "setLocal_each r (kv # rest) w = (Inr (), w1\<lparr>files := files w\<rparr>)"
  proof -
    have "setLocal_each r (kv # rest) w = setLocal_each r rest wl"
      using l by (simp add: bind_def)
    also have "\<dots> = (Inr (), w1\<lparr>files := files w\<rparr>)"
      using IH by (simp add: wl_eq setLocal_each_files)
    finally show ?thesis .
  qed
  have count: "writes (files w1) = writes (files w) + length (kv # rest)"
    using IH wa fs_writeFileSync_writes [OF wr] by simp
  have last: "r < length (heap w1)
        \<and> (\<exists>t. JSON_stringify (data (heap w1 ! r)) 2 = Inr t
              \<and> fs_writeFileSync (files w) (jsonFilePath (heap w1 ! r)) t
                  = Inr ((files w1)\<lparr>writes := Suc (writes (files w))\<rparr>))"
  proof (cases "rest = []")
    case True
    with b have "w1 = wa" by (simp add: return_def)
    then show ?thesis
      using rl st wr pl wa fs_writeFileSync_writes [OF wr] by auto
  next
    case False
    with IH obtain t' where r1: "r < length (heap w1)"
      and st': "JSON_stringify (data (heap w1 ! r)) 2 = Inr t'"
      and wr': "fs_writeFileSync (files wa) (jsonFilePath (heap w1 ! r)) t'
                = Inr ((files w1)\<lparr>writes := Suc (writes (files wa))\<rparr>)"
      by blast
    have "fs_writeFileSync (files w) (jsonFilePath (heap w ! r)) t'
          = Inr (((files w1)\<lparr>writes := Suc (writes (files wa))\<rparr>)\<lparr>writes := Suc (writes (files w))\<rparr>)"
      using wr wr' wa path by (intro fs_writeFileSync_twice [where ?t1.0 = t and ?fs1.0 = fsa]) simp_all
    then show ?thesis using r1 st' path by auto
  qed
  from local path count last show ?case by simp
qed

lemma local_variants_keep_files:
  "files (snd (setLocal r k v w)) = files w"
  "files (snd (deleteLocal r k w)) = files w"
  "files (snd (deleteAllLocal r w)) = files w"
  "files (snd (updateLocal r k (\<lambda>x. lift (f x)) w)) = files w"
  by (simp_all add: setLocal_def updateLocal_def deleteLocal_def deleteAllLocal_def get_def
      bind_def this_def lift_def assign_def split: sum.splits)

lemma setLocal_each_keeps_files: "files (snd (setLocal_each r kvs w)) = files w"
proof (induction kvs arbitrary: w)
  case Nil
  show ?case by (simp add: return_def)
next
  case (Cons kv kvs)
  show ?case
  proof (cases "setLocal r (fst kv) (snd kv) w")
    case (Pair res w')
    then have "files w' = files w"
      using local_variants_keep_files(1) [of r "fst kv" "snd kv" w] by simp
    with Pair show ?thesis
      using Cons.IH [of w'] by (cases res) (simp_all add: bind_def)
  qed
qed

lemma saveDataToFile_writes:
  "writes (files (snd (saveDataToFile r w)))
   = (if fst (saveDataToFile r w) = Inr () then Suc (writes (files w)) else writes (files w))"
  by (auto simp: saveDataToFile_def bind_def this_def lift_def fs_do_def fs_writeFileSync_writes
      split: sum.splits)

lemma batch_writes:
  "writes (files (snd (batch r kvs w)))
   = (if fst (batch r kvs w) = Inr () then Suc (writes (files w)) else writes (files w))"
proof (cases "setLocal_each r kvs w")
  case (Pair res wl)
  then have f: "files wl = files w"
    using setLocal_each_keeps_files [of r kvs w] by simp
  show ?thesis
  proof (cases res)
    case (Inl e)
    with Pair f show ?thesis by (simp add: batch_def bind_def)
  next
    case (Inr u)
    with Pair have "batch r kvs w = saveDataToFile r wl" by (simp add: batch_def bind_def)
    with f show ?thesis using saveDataToFile_writes [of r wl] by simp
  qed
qed

lemma batch_same_order:
  assumes "kvs \<noteq> []" and "fst (set_each r kvs w) = Inr ()"
  shows "fst (batch r kvs w) = Inr ()
       \<and> nodes (files (snd (batch r kvs w))) = nodes (files (snd (set_each r kvs w)))
       \<and> heap (snd (batch r kvs w)) = heap (snd (set_each r kvs w))"
proof -
  define w1 where "w1 = snd (set_each r kvs w)"
  have e: "set_each r kvs w = (Inr (), w1)"
    using assms(2) by (cases "set_each r kvs w") (simp add: w1_def)
  from set_each_spec [OF e] assms(1) obtain t where
    l: "setLocal_each r kvs w = (Inr (), w1\<lparr>files := files w\<rparr>)"
    and r1: "r < length (heap w1)"
    and st: "JSON_stringify (data (heap w1 ! r)) 2 = Inr t"
    and wr: "fs_writeFileSync (files w) (jsonFilePath (heap w1 ! r)) t
             = Inr ((files w1)\<lparr>writes := Suc (writes (files w))\<rparr>)"
    by blast
  let ?wl = "w1\<lparr>files := files w\<rparr>"
  have "saveDataToFile r ?wl = (Inr (), ?wl\<lparr>files := (files w1)\<lparr>writes := Suc (writes (files w))\<rparr>\<rparr>)"
    by (rule saveDataToFile_success [where t = t]) (use r1 st wr in simp_all)
  with l have "batch r kvs w = (Inr (), ?wl\<lparr>files := (files w1)\<lparr>writes := Suc (writes (files w))\<rparr>\<rparr>)"
    by (simp add: batch_def bind_def)
  then show ?thesis by (simp add: w1_def)
qed

lemma map_of_replace_prop_upd:
  "map_of ps k = Some old \<Longrightarrow> map_of (replace_prop k v ps) = (map_of ps)(k \<mapsto> v)"
  by (induction ps) (auto split: if_splits)

lemma map_of_insert_index_upd:
  "map_of ps k = None \<Longrightarrow> map_of (insert_index k v ps) = (map_of ps)(k \<mapsto> v)"
  by (induction ps) (auto split: if_splits simp: fun_upd_twist)

lemma map_of_add_prop_upd:
  "map_of ps k = None \<Longrightarrow> map_of (add_prop k v ps) = (map_of ps)(k \<mapsto> v)"
  by (auto simp: add_prop_def map_of_insert_index_upd map_add_def fun_eq_iff split: option.splits)

lemma set_prop_view:
  assumes "set_prop obj k x = Inr obj'"
  shows "\<exists>p ps q qs. obj = JObj p ps \<and> obj' = JObj q qs
           \<and> (q, map_of qs) = assigned (p, map_of ps) (k, x)"
proof (cases obj)
  case (JObj p ps)
  show ?thesis
  proof (cases "map_of ps k")
    case (Some old)
    with JObj assms show ?thesis
      by (auto simp: assigned_def map_of_replace_prop_upd)
  next
    case None
    with JObj assms show ?thesis
      by (cases "find_prop p k") (auto simp: assigned_def map_of_add_prop_upd)
  qed
qed (use assms in simp_all)

lemma setLocal_success:
  assumes "setLocal r k x w = (Inr (), w')"
  shows "r < length (heap w) \<and> (\<exists>obj. set_prop (data (heap w ! r)) k x = Inr obj
           \<and> w' = w\<lparr>heap := (heap w)[r := (heap w ! r)\<lparr>data := obj\<rparr>]\<rparr>)"
  using assms
  by (auto simp: setLocal_def bind_def this_def lift_def assign_def split: sum.splits if_splits)

lemma setLocal_each_view:
  "setLocal_each r kvs w = (Inr (), w') \<Longrightarrow> kvs \<noteq> [] \<Longrightarrow>
   r < length (heap w') \<and>
   (\<exists>p ps q qs. data (heap w ! r) = JObj p ps \<and> data (heap w' ! r) = JObj q qs
        \<and> (q, map_of qs) = foldl assigned (p, map_of ps) kvs)"
proof (induction kvs arbitrary: w)
  case Nil
  then show ?case by simp
next
  case (Cons kv rest)
  from Cons.prems(1) obtain wl where
    a: "setLocal r (fst kv) (snd kv) w = (Inr (), wl)" and b: "setLocal_each r rest wl = (Inr (), w')"
    by (auto simp: bind_def split: prod.splits sum.splits)
  from setLocal_success [OF a] obtain obj where
    r: "r < length (heap w)" and s: "set_prop (data (heap w ! r)) (fst kv) (snd kv) = Inr obj"
    and wl: "wl = w\<lparr>heap := (heap w)[r := (heap w ! r)\<lparr>data := obj\<rparr>]\<rparr>"
    by blast
  from set_prop_view [OF s] obtain p ps q qs where
    v: "data (heap w ! r) = JObj p ps" "obj = JObj q qs"
       "(q, map_of qs) = assigned (p, map_of ps) (fst kv, snd kv)"
    by blast
  have dl: "data (heap wl ! r) = JObj q qs" and rl: "r < length (heap wl)"
    using r wl v(2) by simp_all
  show ?case
  proof (cases "rest = []")
    case True
    with b have "w' = wl" by (simp add: return_def)
    with dl rl v show ?thesis by (simp add: True)
  next
    case False
    from Cons.IH [OF b False] dl obtain q' qs' where
      "r < length (heap w')" "data (heap w' ! r) = JObj q' qs'"
      "(q', map_of qs') = foldl assigned (q, map_of qs) rest"
      by auto
    with v show ?thesis by simp
  qed
qed

lemma assigned_other:
  "k \<noteq> ''__proto__'' \<Longrightarrow> assigned (p, m) (k, x) = (p, m(k \<mapsto> x))"
  by (auto simp: assigned_def dest: find_prop_accessor)

lemma add_entry: "m(k \<mapsto> x) ++ map_of (rev rest) = m ++ map_of (rev ((k, x) # rest))"
  by (simp add: map_add_def fun_eq_iff split: option.splits)

lemma foldl_assigned_plain:
  "''__proto__'' \<notin> fst ` set kvs \<Longrightarrow> foldl assigned (p, m) kvs = (p, m ++ map_of (rev kvs))"
proof (induction kvs arbitrary: m)
  case Nil
  show ?case by simp
next
  case (Cons kv rest)
  obtain k x where kv: "kv = (k, x)" by (cases kv)
  with Cons.prems have k: "k \<noteq> ''__proto__''" and r: "''__proto__'' \<notin> fst ` set rest" by auto
  have "foldl assigned (p, m) (kv # rest) = foldl assigned (p, m(k \<mapsto> x)) rest"
    using k kv by (simp add: assigned_other)
  also have "\<dots> = (p, m(k \<mapsto> x) ++ map_of (rev rest))"
    by (rule Cons.IH [OF r])
  also have "m(k \<mapsto> x) ++ map_of (rev rest) = m ++ map_of (rev (kv # rest))"
    unfolding kv by (rule add_entry)
  finally show ?case .
qed

lemma foldl_assigned_outcome:
  "distinct (map fst kvs) \<Longrightarrow> foldl assigned (p, m) kvs = outcome (p, m) kvs"
proof (induction kvs arbitrary: m)
  case Nil
  show ?case by (simp add: outcome_def)
next
  case (Cons kv rest)
  obtain k x where kv: "kv = (k, x)" by (cases kv)
  from Cons.prems kv have d: "distinct (map fst rest)" and n: "k \<notin> fst ` set rest" by auto
  show ?case
  proof (cases "k = ''__proto__''")
    case True
    with n have np: "''__proto__'' \<notin> fst ` set rest" by simp
    then have f: "filter (\<lambda>kv. fst kv \<noteq> ''__proto__'') rest = rest"
      by (force simp: filter_id_conv)
    obtain p' m' where a: "assigned (p, m) (k, x) = (p', m')" by (cases "assigned (p, m) (k, x)")
    have "foldl assigned (p, m) (kv # rest) = (p', m' ++ map_of (rev rest))"
      using foldl_assigned_plain [OF np, of p' m'] a kv by simp
    moreover have "outcome (p, m) (kv # rest) = (p', m' ++ map_of (rev rest))"
    proof (cases "m ''__proto__'' = None \<and> find_prop p ''__proto__'' = ProtoAccessor")
      case setter: True
      with a True have "p' = (if is_object_or_null x then x else p)" "m' = m"
        by (auto simp: assigned_def)
      with setter True f kv show ?thesis by (simp add: outcome_def)
    next
      case False
      with a True have "p' = p" "m' = m(k \<mapsto> x)"
        by (auto simp: assigned_def)
      with False True kv show ?thesis by (auto simp: outcome_def)
    qed
    ultimately show ?thesis by simp
  next
    case False
    have "foldl assigned (p, m) (kv # rest) = foldl assigned (p, m(k \<mapsto> x)) rest"
      using False kv by (simp add: assigned_other)
    also have "\<dots> = outcome (p, m(k \<mapsto> x)) rest"
      by (rule Cons.IH [OF d])
    also have "\<dots> = outcome (p, m) (kv # rest)"
      using False kv by (simp add: outcome_def split: option.splits)
    finally show ?thesis .
  qed
qed

lemma outcome_any_order:
  assumes "distinct (map fst kvs)" and "distinct (map fst kvs')" and "set kvs' = set kvs"
  shows "outcome pm kvs' = outcome pm kvs"
proof -
  let ?P = "\<lambda>kv :: string \<times> jsval. fst kv \<noteq> ''__proto__''"
  have 1: "map_of kvs' = map_of kvs"
    using assms by (simp add: map_of_inject_set)
  have 2: "map_of (rev kvs') = map_of (rev kvs)"
    using assms by (intro iffD2 [OF map_of_inject_set]) (simp_all add: rev_map [symmetric])
  have 3: "map_of (rev (filter ?P kvs')) = map_of (rev (filter ?P kvs))"
    using assms
    by (intro iffD2 [OF map_of_inject_set])
       (simp_all add: rev_map [symmetric] distinct_map_filter)
  show ?thesis unfolding outcome_def 1 2 3 by (rule refl)
qed

lemma stringify_object:
  "JSON_stringify (JObj p ps) n = Inr t \<Longrightarrow> \<exists>s. t = JStr s"
  by (auto simp: JSON_stringify_def split: if_splits)

lemma saveDataToFile_saved:
  assumes "saveDataToFile r w = (Inr (), w')" and "data (heap w ! r) = JObj p ps"
  shows "saved r w'"
proof -
  from assms(1) obtain t fs' where
    r: "r < length (heap w)" and st: "JSON_stringify (data (heap w ! r)) 2 = Inr t"
    and wr: "fs_writeFileSync (files w) (jsonFilePath (heap w ! r)) t = Inr fs'"
    and w': "w' = w\<lparr>files := fs'\<rparr>"
    by (auto simp: saveDataToFile_def bind_def this_def lift_def fs_do_def
        split: sum.splits if_splits)
  from st assms(2) obtain s where t: "t = JStr s" by (auto dest: stringify_object)
  with wr have "fs' = written (files w) (jsonFilePath (heap w ! r)) s"
    by (auto simp: fs_writeFileSync_def dest: write_node_result)
  then show ?thesis
    using st t w' by (simp add: saved_def written_def)
qed

lemma set_db_saved:
  assumes "set_db r k v w = (Inr (), w')"
  shows "saved r w'"
proof -
  from assms obtain wl where
    l: "setLocal r k v w = (Inr (), wl)" and s: "saveDataToFile r wl = (Inr (), w')"
    by (auto simp: set_db_def bind_def split: prod.splits sum.splits)
  from setLocal_success [OF l] obtain obj where
    r: "r < length (heap w)" and sp: "set_prop (data (heap w ! r)) k v = Inr obj"
    and wl: "wl = w\<lparr>heap := (heap w)[r := (heap w ! r)\<lparr>data := obj\<rparr>]\<rparr>"
    by blast
  from set_prop_view [OF sp] obtain q qs where "obj = JObj q qs" by blast
  with r wl have "data (heap wl ! r) = JObj q qs" by simp
  with s show ?thesis by (rule saveDataToFile_saved)
qed

lemma set_each_saved:
  "set_each r kvs w = (Inr (), w1) \<Longrightarrow> kvs \<noteq> [] \<Longrightarrow> saved r w1"
proof (induction kvs arbitrary: w)
  case Nil
  then show ?case by simp
next
  case (Cons kv rest)
  from Cons.prems(1) obtain wa where
    a: "set_db r (fst kv) (snd kv) w = (Inr (), wa)" and b: "set_each r rest wa = (Inr (), w1)"
    by (auto simp: bind_def split: prod.splits sum.splits)
  show ?case
  proof (cases "rest = []")
    case True
    with b have "w1 = wa" by (simp add: return_def)
    with a show ?thesis by (simp add: set_db_saved)
  next
    case False
    with b show ?thesis by (rule Cons.IH)
  qed
qed

lemma batch_any_order:
  assumes "kvs \<noteq> []" and "distinct (map fst kvs)" and "distinct (map fst kvs')"
    and "set kvs' = set kvs"
    and "fst (batch r kvs w) = Inr ()" and "fst (set_each r kvs' w) = Inr ()"
  shows "same_entries (data (heap (snd (batch r kvs w)) ! r))
                      (data (heap (snd (set_each r kvs' w)) ! r))
       \<and> saved r (snd (batch r kvs w)) \<and> saved r (snd (set_each r kvs' w))"
proof -
  have n': "kvs' \<noteq> []" using assms(1,4) by auto
  obtain res wl where l0: "setLocal_each r kvs w = (res, wl)"
    by (cases "setLocal_each r kvs w")
  with assms(5) have l: "setLocal_each r kvs w = (Inr (), wl)"
    by (cases res) (simp_all add: batch_def bind_def)
  define w2 where "w2 = snd (saveDataToFile r wl)"
  have b0: "batch r kvs w = saveDataToFile r wl"
    using l by (simp add: batch_def bind_def)
  with assms(5) have s: "saveDataToFile r wl = (Inr (), w2)"
    by (cases "saveDataToFile r wl") (simp add: w2_def)
  with b0 have b: "batch r kvs w = (Inr (), w2)" by simp
  from setLocal_each_view [OF l assms(1)] obtain p ps q qs where
    v: "data (heap w ! r) = JObj p ps" "data (heap wl ! r) = JObj q qs"
       "(q, map_of qs) = foldl assigned (p, map_of ps) kvs"
    by blast
  define w1 where "w1 = snd (set_each r kvs' w)"
  have e: "set_each r kvs' w = (Inr (), w1)"
    using assms(6) by (cases "set_each r kvs' w") (simp add: w1_def)
  from set_each_spec [OF e] have l': "setLocal_each r kvs' w = (Inr (), w1\<lparr>files := files w\<rparr>)"
    by simp
  have "\<exists>p2 ps2 q' qs'. data (heap w ! r) = JObj p2 ps2 \<and> data (heap w1 ! r) = JObj q' qs'
           \<and> (q', map_of qs') = foldl assigned (p2, map_of ps2) kvs'"
    using setLocal_each_view [OF l' n'] by simp
  then obtain p2 ps2 q' qs' where
    v0: "data (heap w ! r) = JObj p2 ps2" and v1: "data (heap w1 ! r) = JObj q' qs'"
    and v2: "(q', map_of qs') = foldl assigned (p2, map_of ps2) kvs'"
    by blast
  from v0 v(1) have "p2 = p" "ps2 = ps" by simp_all
  with v2 have v3: "(q', map_of qs') = foldl assigned (p, map_of ps) kvs'" by simp
  have "foldl assigned (p, map_of ps) kvs' = outcome (p, map_of ps) kvs'"
    by (rule foldl_assigned_outcome [OF assms(3)])
  also have "\<dots> = outcome (p, map_of ps) kvs"
    by (rule outcome_any_order [OF assms(2,3,4)])
  also have "\<dots> = foldl assigned (p, map_of ps) kvs"
    by (rule foldl_assigned_outcome [OF assms(2), symmetric])
  finally have "(q', map_of qs') = (q, map_of qs)"
    using v3 v(3) by simp
  then have same: "q' = q" "map_of qs' = map_of qs" by simp_all
  have h2: "heap w2 = heap wl"
    using s saveDataToFile_heap [of r wl] by simp
  have "same_entries (data (heap w2 ! r)) (data (heap w1 ! r))"
    using v(2) v1 same h2 by (simp add: same_entries_def)
  moreover have "saved r w2" using s v(2) by (rule saveDataToFile_saved)
  moreover have "saved r w1" using e n' by (rule set_each_saved)
  ultimately show ?thesis using b by (simp add: w1_def)
qed

text \<open>
  C7, as the code has it. The local variants leave the file system as it is (\<open>updateLocal\<close>
  for a callback that does nothing but compute). A run of \<open>setLocal\<close> calls followed by one
  \<open>saveDataToFile\<close> has written the file exactly once if it returns, and not at all if a call
  throws. For one or more pairs: if the calls of \<open>set\<close> in the same order all return, the
  batch returns too and leaves the same files and the same mirrors; if the calls of \<open>set\<close> on
  the same pairs, with distinct keys, in another order return and the batch returns, then the
  two mirrors have the same prototype and the same entries and each file holds the text of
  its mirror.
\<close>

theorem deferred_batch_and_immediate_writes:
  "files (snd (setLocal r k v w)) = files w
   \<and> files (snd (deleteLocal r k w)) = files w
   \<and> files (snd (deleteAllLocal r w)) = files w
   \<and> files (snd (updateLocal r k (\<lambda>x. lift (f x)) w)) = files w
   \<and> writes (files (snd (batch r kvs w)))
       = (if fst (batch r kvs w) = Inr () then Suc (writes (files w)) else writes (files w))
   \<and> (kvs \<noteq> [] \<and> fst (set_each r kvs w) = Inr ()
        \<longrightarrow> fst (batch r kvs w) = Inr ()
          \<and> nodes (files (snd (batch r kvs w))) = nodes (files (snd (set_each r kvs w)))
          \<and> heap (snd (batch r kvs w)) = heap (snd (set_each r kvs w)))
   \<and> (kvs \<noteq> [] \<and> distinct (map fst kvs) \<and> distinct (map fst kvs') \<and> set kvs' = set kvs
        \<and> fst (batch r kvs w) = Inr () \<and> fst (set_each r kvs' w) = Inr ()
        \<longrightarrow> same_entries (data (heap (snd (batch r kvs w)) ! r))
                         (data (heap (snd (set_each r kvs' w)) ! r))
          \<and> saved r (snd (batch r kvs w)) \<and> saved r (snd (set_each r kvs' w)))"
  using batch_same_order [of kvs r w] batch_any_order [of kvs kvs' r w]
  by (simp only: local_variants_keep_files batch_writes) blast

theorem deferred_batch_and_immediate_writes_witness:
  "a_then_b \<noteq> [] \<and> distinct (map fst a_then_b) \<and> distinct (map fst b_then_a)
   \<and> set b_then_a = set a_then_b
   \<and> fst (set_each 0 a_then_b (first_world False)) = Inr ()
   \<and> fst (set_each 0 b_then_a (first_world False)) = Inr ()
   \<and> fst (batch 0 a_then_b (first_world False)) = Inr ()
   \<and> writes (files (snd (batch 0 a_then_b (first_world False))))
       = Suc (writes (files (first_world False)))
   \<and> nodes (files (snd (batch 0 a_then_b (first_world False))))
       = nodes (files (snd (set_each 0 a_then_b (first_world False))))
   \<and> heap (snd (batch 0 a_then_b (first_world False)))
       = heap (snd (set_each 0 a_then_b (first_world False)))
   \<and> same_entries (data (heap (snd (batch 0 a_then_b (first_world False))) ! 0))
                   (data (heap (snd (set_each 0 b_then_a (first_world False))) ! 0))
   \<and> saved 0 (snd (batch 0 a_then_b (first_world False)))
   \<and> saved 0 (snd (set_each 0 b_then_a (first_world False)))"
proof -
  let ?w = "first_world False"
  have n: "a_then_b \<noteq> []" "distinct (map fst a_then_b)" "distinct (map fst b_then_a)"
    "set b_then_a = set a_then_b"
    by (auto simp: a_then_b_def b_then_a_def)
  have s: "fst (set_each 0 a_then_b ?w) = Inr ()" "fst (set_each 0 b_then_a ?w) = Inr ()"
    by (simp_all add: eval_defs example_defs)
  have b: "fst (batch 0 a_then_b ?w) = Inr ()"
    by (simp add: eval_defs example_defs batch_def)
  note T = deferred_batch_and_immediate_writes [of 0 k v ?w f a_then_b b_then_a]
  note D = T [THEN conjunct2, THEN conjunct2, THEN conjunct2, THEN conjunct2]
  have c: "writes (files (snd (batch 0 a_then_b ?w))) = Suc (writes (files ?w))"
    using D [THEN conjunct1] by (simp only: b simp_thms if_True)
  have so: "fst (batch 0 a_then_b ?w) = Inr ()
          \<and> nodes (files (snd (batch 0 a_then_b ?w))) = nodes (files (snd (set_each 0 a_then_b ?w)))
          \<and> heap (snd (batch 0 a_then_b ?w)) = heap (snd (set_each 0 a_then_b ?w))"
    by (rule D [THEN conjunct2, THEN conjunct1, THEN mp]) (intro conjI n s)
  have ao: "same_entries (data (heap (snd (batch 0 a_then_b ?w)) ! 0))
                         (data (heap (snd (set_each 0 b_then_a ?w)) ! 0))
          \<and> saved 0 (snd (batch 0 a_then_b ?w)) \<and> saved 0 (snd (set_each 0 b_then_a ?w))"
    by (rule D [THEN conjunct2, THEN conjunct2, THEN mp]) (intro conjI n s b)
  show ?thesis
    by (intro conjI n s b c so [THEN conjunct2, THEN conjunct1] so [THEN conjunct2, THEN conjunct2]
        ao [THEN conjunct1] ao [THEN conjunct2, THEN conjunct1] ao [THEN conjunct2, THEN conjunct2])
qed

text \<open>
  C7, as the claim has it, fails for no writes at all and for a callback that writes. On
  \<open>unsaved_world\<close>, which \<open>deleteLocal("a")\<close> leaves, the one \<open>save()\<close> of an empty batch
  writes \<open>{}\<close>, while no call of \<open>set\<close> leaves the file with \<open>{a: 1}\<close>. And \<open>updateLocal\<close> with
  the callback \<open>v => { db.set("b", 2); return v }\<close> returns with the file changed. On
  \<open>half_built_world\<close>, whose mirror was never assigned, the batch throws at its first
  \<open>setLocal\<close> and writes nothing.
\<close>

theorem save_without_writes_differs:
  "deleteLocal 0 ''a'' count_world = (Inr (), unsaved_world)
   \<and> nodes (files (snd (batch 0 [] unsaved_world))) ''db.json'' = Some (File ''{}'')
   \<and> nodes (files (snd (set_each 0 [] unsaved_world))) ''db.json'' = Some (File indented_a1)
   \<and> nodes (files (snd (batch 0 [] unsaved_world))) ''db.json''
       \<noteq> nodes (files (snd (set_each 0 [] unsaved_world))) ''db.json''
   \<and> fst (updateLocal 0 ''a'' writing_callback count_world) = Inr ()
   \<and> nodes (files (snd (updateLocal 0 ''a'' writing_callback count_world))) ''db.json''
       \<noteq> nodes (files count_world) ''db.json''
   \<and> fst (batch 0 a_then_b half_built_world)
       = Inl (TypeError ''Cannot set properties of undefined or null'')
   \<and> writes (files (snd (batch 0 a_then_b half_built_world))) = writes (files half_built_world)"
  by (simp add: eval_defs example_defs batch_def)

text \<open>
  The bytes follow the order of the writes: with \<open>a\<close>, \<open>b\<close> written locally and \<open>b\<close>, \<open>a\<close>
  written immediately the two files list the same entries in different orders.
\<close>

lemma key_order_follows_writes:
  "nodes (files (snd (batch 0 a_then_b (first_world False)))) ''db.json''
     \<noteq> nodes (files (snd (set_each 0 b_then_a (first_world False)))) ''db.json''"
  by (simp add: eval_defs example_defs batch_def)

subsection \<open>The instance table over time\<close>

named_theorems keeps_intros

lemma keeps_bind [keeps_intros]:
  "keeps I m \<Longrightarrow> (\<And>x. keeps I (f x)) \<Longrightarrow> keeps I (bind m f)"
  unfolding keeps_def bind_def
  by (auto split: prod.splits sum.splits)

lemma keeps_if [keeps_intros]:
  "keeps I a \<Longrightarrow> keeps I b \<Longrightarrow> keeps I (if c then a else b)"
  by simp

lemma keeps_let [keeps_intros]:
  "keeps I (f x) \<Longrightarrow> keeps I (let y = x in f y)"
  by simp

lemma keeps_same [keeps_intros]:
  "keeps I (return x)" "keeps I (throw e)" "keeps I (lift res)" "keeps I (this r)"
  "keeps I (fs_exists p)" "keeps I (\<lambda>w. (g w, w))"
  by (simp_all add: keeps_def return_def throw_def lift_def this_def fs_exists_def)

lemma keeps_fs_do [keeps_intros]: "keeps (registered p r opts) (fs_do f)"
  by (simp add: keeps_def fs_do_def registered_def split: sum.splits)

lemma keeps_assign_data [keeps_intros]:
  "keeps (registered p r opts) (assign r' (\<lambda>d. d\<lparr>data := x\<rparr>))"
  by (simp add: keeps_def assign_def registered_def nth_list_update)

lemma keeps_assign_other:
  "r' \<noteq> r \<Longrightarrow> keeps (registered p r opts) (assign r' f)"
  by (simp add: keeps_def assign_def registered_def nth_list_update)

lemma keeps_timer [keeps_intros]:
  "keeps (registered p r opts) (\<lambda>w. (Inr (), w\<lparr>timers := timers w @ [t]\<rparr>))"
  by (simp add: keeps_def registered_def)

lemma keeps_fetchDataFromFile [keeps_intros]: "keeps (registered p r opts) (fetchDataFromFile r')"
  unfolding fetchDataFromFile_def by (intro keeps_intros)

lemma keeps_saveDataToFile [keeps_intros]: "keeps (registered p r opts) (saveDataToFile r')"
  unfolding saveDataToFile_def by (intro keeps_intros)

lemma keeps_makeSnapshot [keeps_intros]: "keeps (registered p r opts) (makeSnapshot r' folder now)"
  unfolding makeSnapshot_def by (intro keeps_intros)

lemma keeps_start_snapshots [keeps_intros]: "keeps (registered p r opts) (start_snapshots r')"
  unfolding start_snapshots_def by (intro keeps_intros)

lemma keeps_open_file [keeps_intros]: "keeps (registered p r opts) (open_file r')"
  unfolding open_file_def by (intro keeps_intros)

lemma keeps_get [keeps_intros]: "keeps (registered p r opts) (get r' k)"
  unfolding get_def by (intro keeps_intros)

lemma keeps_has [keeps_intros]: "keeps (registered p r opts) (has r' k)"
  unfolding has_def by (intro keeps_intros)

lemma keeps_setLocal [keeps_intros]: "keeps (registered p r opts) (setLocal r' k v)"
  unfolding setLocal_def by (intro keeps_intros)

lemma keeps_set_db [keeps_intros]: "keeps (registered p r opts) (set_db r' k v)"
  unfolding set_db_def by (intro keeps_intros)

lemma keeps_update [keeps_intros]:
  "keeps (registered p r opts) (update r' k (\<lambda>v. lift (f v)))"
  unfolding update_def by (intro keeps_intros)

lemma keeps_updateLocal [keeps_intros]:
  "keeps (registered p r opts) (updateLocal r' k (\<lambda>v. lift (f v)))"
  unfolding updateLocal_def by (intro keeps_intros)

lemma keeps_deleteLocal [keeps_intros]: "keeps (registered p r opts) (deleteLocal r' k)"
  unfolding deleteLocal_def by (intro keeps_intros)

lemma keeps_delete [keeps_intros]: "keeps (registered p r opts) (delete r' k)"
  unfolding delete_def by (intro keeps_intros)

lemma keeps_deleteAllLocal [keeps_intros]: "keeps (registered p r opts) (deleteAllLocal r')"
  unfolding deleteAllLocal_def by (intro keeps_intros)

lemma keeps_deleteAll [keeps_intros]: "keeps (registered p r opts) (deleteAll r')"
  unfolding deleteAll_def by (intro keeps_intros)


lemma map_of_insert_index_other:
  "p \<noteq> p' \<Longrightarrow> map_of (insert_index p' v tbl) p = map_of tbl p"
  by (induction tbl) auto

lemma map_of_add_prop_other:
  "p \<noteq> p' \<Longrightarrow> map_of (add_prop p' v tbl) p = map_of tbl p"
  by (simp add: add_prop_def map_of_insert_index_other map_add_def split: option.splits)

lemma instances_get_None: "instances_get tbl k = None \<Longrightarrow> map_of tbl k = None"
  by (simp add: instances_get_def split: option.splits)

lemma instances_get_Instance:
  "instances_get tbl k = Some (Instance r) \<Longrightarrow> map_of tbl k = Some r"
  by (auto simp: instances_get_def split: option.splits prop_slot.splits)

text \<open>A path in the table is answered from the table, whatever the options.\<close>

lemma Database_registered:
  "map_of (instances w) p = Some r \<Longrightarrow> p \<noteq> [] \<Longrightarrow>
   Database (JStr p) opts w = (Inr (Instance r), w)"
  by (simp add: Database_def instances_get_def)

lemma Database_fresh:
  assumes "instances_get (instances w) p = None" and "p \<noteq> []"
  shows "Database (JStr p) opts w =
         bind (start_snapshots (length (heap w))) (\<lambda>u.
         bind (assign (length (heap w)) (\<lambda>d. d\<lparr>data := empty_object\<rparr>)) (\<lambda>u.
         bind (open_file (length (heap w))) (\<lambda>u.
           return (Instance (length (heap w)))))) (allocated p opts w)"
  using assms by (simp add: Database_def bind_def assign_def allocated_def Let_def)

lemma registered_allocated:
  assumes "registered p r opts w" and "instances_get (instances w) p' = None"
  shows "registered p r opts (allocated p' o' w)"
proof -
  have "map_of (instances w) p' = None" using assms(2) by (rule instances_get_None)
  with assms(1) have "p \<noteq> p'" by (auto simp: registered_def)
  with assms(1) show ?thesis
    by (simp add: registered_def allocated_def nth_append map_of_add_prop_other)
qed

lemma registered_new:
  "instances_get (instances w) p = None \<Longrightarrow>
   registered p (length (heap w)) (if truthy opts then opts else empty_object) (allocated p opts w)"
  by (auto simp: registered_def allocated_def map_of_add_prop dest!: instances_get_None)

lemma keeps_construction:
  "keeps (registered p r opts)
     (bind (start_snapshots r') (\<lambda>u.
      bind (assign r' (\<lambda>d. d\<lparr>data := empty_object\<rparr>)) (\<lambda>u.
      bind (open_file r') (\<lambda>u. return (Instance r')))))"
  by (intro keeps_intros)

lemma keeps_Database: "keeps (registered p r opts) (Database filePath o')"
  unfolding keeps_def
proof (intro allI impI)
  fix w assume I: "registered p r opts w"
  show "registered p r opts (snd (Database filePath o' w))"
  proof (cases "truthy filePath \<and> typeof filePath = ''string''")
    case False
    with I show ?thesis by (simp add: Database_def throw_def)
  next
    case True
    then obtain q where q: "filePath = JStr q" "q \<noteq> []" by (cases filePath) auto
    show ?thesis
    proof (cases "instances_get (instances w) q")
      case (Some existing)
      with I q show ?thesis by (simp add: Database_def)
    next
      case None
      from registered_allocated [OF I None] have "registered p r opts (allocated q o' w)" .
      with keeps_construction [of p r opts "length (heap w)"]
      show ?thesis unfolding q(1) Database_fresh [OF None q(2)] keeps_def by blast
    qed
  qed
qed

lemma registered_perform: "registered p r opts w \<Longrightarrow> registered p r opts (perform c w)"
  using keeps_Database keeps_fetchDataFromFile keeps_saveDataToFile keeps_makeSnapshot keeps_get
    keeps_set_db keeps_setLocal keeps_update keeps_updateLocal keeps_delete keeps_deleteLocal
    keeps_deleteAll keeps_deleteAllLocal keeps_has
  unfolding keeps_def by (cases c) simp_all

lemma registered_run: "registered p r opts w \<Longrightarrow> registered p r opts (run cs w)"
  by (induction cs arbitrary: w) (simp_all add: registered_perform)

lemma Database_registers:
  assumes "registry_sound w" and "Database (JStr p) opts w = (Inr (Instance r), w1)"
  shows "registered p r (options (heap w1 ! r)) w1 \<and> p \<noteq> []"
proof -
  have p: "p \<noteq> []" using assms(2) by (auto simp: Database_def throw_def)
  show ?thesis
  proof (cases "instances_get (instances w) p")
    case (Some existing)
    with assms(2) p have e: "existing = Instance r" "w1 = w" by (simp_all add: Database_def)
    with Some have m: "map_of (instances w) p = Some r" by (simp add: instances_get_Instance)
    then have "(p, r) \<in> set (instances w)" by (rule map_of_SomeD)
    with assms(1) have "r < length (heap w)"
      by (auto simp: registry_sound_def list_all_iff)
    with m e p show ?thesis by (simp add: registered_def)
  next
    case None
    let ?r = "length (heap w)"
    let ?o = "if truthy opts then opts else empty_object"
    from assms(2) have "r = ?r"
      unfolding Database_fresh [OF None p]
      by (auto simp: bind_def return_def split: prod.splits sum.splits)
    moreover have "registered p ?r ?o w1"
      using keeps_construction [of p ?r ?o ?r] registered_new [OF None, of opts] assms(2)
      unfolding Database_fresh [OF None p] keeps_def by (metis snd_conv)
    ultimately show ?thesis using p by (simp add: registered_def)
  qed
qed





end
